theory Spec2Isabelle
  imports Main "HOL-Library.Word"
begin

unbundle bit_operations_syntax

chapter \<open>SwiftShader: Reactor, GLSL preprocessor and limitations validator\<close>

section \<open>Reactor: swizzles (src/Reactor/Reactor.cpp)\<close>

text \<open>
  A Reactor vector value is an opaque SSA node; what the swizzle functions decide is which
  lane of the operand ends up in which lane of the result. A vector is therefore a list of
  its lanes, lane 0 first.

  \<^verbatim>\<open>Nucleus::createShuffleVector(v1, v2, select)\<close> builds the shufflevector instruction:
  with \<open>size\<close> the number of lanes of \<open>v1\<close>, lane \<open>i < size\<close> of the result is lane
  \<open>select[i]\<close> of the concatenation of \<open>v1\<close> and \<open>v2\<close>.
\<close>

definition createShuffleVector :: "'a list \<Rightarrow> 'a list \<Rightarrow> nat list \<Rightarrow> 'a list" where
  "createShuffleVector v1 v2 select =
     map (\<lambda>i. (v1 @ v2) ! (select ! i)) [0..<length v1]"

text \<open>
  \<^verbatim>\<open>createSwizzle4(val, select)\<close>: \<open>select\<close> is a \<open>uint16_t\<close>; the four shuffle indices
  are \<open>(select >> 12) & 3\<close>, \<open>(select >> 8) & 3\<close>, \<open>(select >> 4) & 3\<close> and
  \<open>(select >> 0) & 3\<close>.
\<close>

definition createSwizzle4 :: "'a list \<Rightarrow> 16 word \<Rightarrow> 'a list" where
  "createSwizzle4 val select =
     (let swizzle = [unat (drop_bit 12 select AND 0x03),
                     unat (drop_bit 8 select AND 0x03),
                     unat (drop_bit 4 select AND 0x03),
                     unat (drop_bit 0 select AND 0x03)]
      in createShuffleVector val val swizzle)"

definition Swizzle_Float4 :: "'a list \<Rightarrow> 16 word \<Rightarrow> 'a list" where
  "Swizzle_Float4 x select = createSwizzle4 x select"

definition Swizzle_Int4 :: "'a list \<Rightarrow> 16 word \<Rightarrow> 'a list" where
  "Swizzle_Int4 x select = createSwizzle4 x select"

text \<open>
  \<^verbatim>\<open>Swizzle(RValue<Short4>, select)\<close>: a \<open>Short4\<close> lives in the low four lanes of an
  eight-lane vector; the shuffle repeats the four indices for the high lanes.
\<close>

definition Swizzle_Short4 :: "'a list \<Rightarrow> 16 word \<Rightarrow> 'a list" where
  "Swizzle_Short4 x select =
     (let shuffle = [unat (drop_bit 12 select AND 0x03),
                     unat (drop_bit 8 select AND 0x03),
                     unat (drop_bit 4 select AND 0x03),
                     unat (drop_bit 0 select AND 0x03),
                     unat (drop_bit 12 select AND 0x03),
                     unat (drop_bit 8 select AND 0x03),
                     unat (drop_bit 4 select AND 0x03),
                     unat (drop_bit 0 select AND 0x03)]
      in createShuffleVector x x shuffle)"

subsection \<open>Lane selection\<close>

lemma and3_lt4: "unat ((w :: 16 word) AND 3) < 4"
proof -
  have "unat (w AND 3) \<le> unat (3 :: 16 word)"
    by (rule word_and_le1 [THEN word_le_nat_alt [THEN iffD1]])
  then show ?thesis by simp
qed

lemma upt_0_4: "[0..<4] = [0, Suc 0, 2, 3]"
  by (simp add: upt_rec numeral_eq_Suc)

lemma createSwizzle4_lanes:
  assumes "length v = 4"
  shows "createSwizzle4 v s =
     [v ! unat (drop_bit 12 s AND 3), v ! unat (drop_bit 8 s AND 3),
      v ! unat (drop_bit 4 s AND 3), v ! unat (s AND 3)]"
  using assms and3_lt4
  by (simp add: createSwizzle4_def createShuffleVector_def upt_0_4 nth_append)

lemma select_nibble_mask:
  "(w AND 0x3333) AND 3 = w AND (3 :: 16 word)"
  "(w AND 0x333) AND 3 = w AND (3 :: 16 word)"
  "(w AND 0x33) AND 3 = w AND (3 :: 16 word)"
  "(w AND 0x3) AND 3 = w AND (3 :: 16 word)"
  by (simp_all add: and.assoc)

text \<open>
  Claim C8. For a four-lane vector \<open>v\<close> and any 16-bit selector \<open>s\<close>, lane \<open>i\<close> of the
  swizzle (for \<open>Float4\<close> and \<open>Int4\<close>, both \<open>createSwizzle4\<close>) is lane
  \<open>(s >> (12 - 4 i)) & 3\<close> of \<open>v\<close>, so lane 0 is selected by the most significant nibble;
  and the result depends only on the low two bits of each nibble: masking the selector
  with \<open>0x3333\<close> changes nothing.
\<close>

theorem swizzle_lane_selection:
  assumes "length v = 4" and "i < 4"
  shows "createSwizzle4 v s ! i = v ! unat (drop_bit (12 - 4 * i) s AND 3)
       \<and> createSwizzle4 v s = createSwizzle4 v (s AND 0x3333)
       \<and> Swizzle_Float4 v s = createSwizzle4 v s
       \<and> Swizzle_Int4 v s = createSwizzle4 v s
       \<and> length (createSwizzle4 v s) = 4"
proof -
  from \<open>i < 4\<close> consider "i = 0" | "i = 1" | "i = 2" | "i = 3" by linarith
  then have "createSwizzle4 v s ! i = v ! unat (drop_bit (12 - 4 * i) s AND 3)"
    by cases (simp_all add: createSwizzle4_lanes [OF assms(1)])
  moreover have "createSwizzle4 v s = createSwizzle4 v (s AND 0x3333)"
    by (simp add: createSwizzle4_lanes [OF assms(1)] select_nibble_mask)
  moreover have "length (createSwizzle4 v s) = 4"
    by (simp add: createSwizzle4_lanes [OF assms(1)])
  ultimately show ?thesis
    by (simp add: Swizzle_Float4_def Swizzle_Int4_def)
qed

theorem swizzle_lane_selection_witness:
  "length [''a'', ''b'', ''c'', ''d''] = 4 \<and> (2 :: nat) < 4
   \<and> createSwizzle4 [''a'', ''b'', ''c'', ''d''] 0x0033 ! 2 = ''d''
   \<and> createSwizzle4 [''a'', ''b'', ''c'', ''d''] 0x0033
       = createSwizzle4 [''a'', ''b'', ''c'', ''d''] (0x0033 AND 0x3333)"
proof -
  have h1: "length [''a'', ''b'', ''c'', ''d''] = 4" by simp
  have h2: "(2 :: nat) < 4" by simp
  show ?thesis
    using swizzle_lane_selection [OF h1 h2, of "0x0033"] by simp
qed

section \<open>Reactor: variables (src/Reactor/Reactor.cpp, Nucleus)\<close>

text \<open>
  A routine under construction. \<^verbatim>\<open>Value *\<close>, \<^verbatim>\<open>Type *\<close> and
  \<^verbatim>\<open>BasicBlock *\<close> are opaque handles, here numbers; a \<^verbatim>\<open>Value *\<close> that may be
  \<^verbatim>\<open>nullptr\<close> is a \<open>Value option\<close>. A \<^verbatim>\<open>Variable\<close> object is identified by its
  \<^verbatim>\<open>this\<close> pointer (\<open>VariableRef\<close>); its mutable fields \<^verbatim>\<open>rvalue\<close> and
  \<^verbatim>\<open>address\<close> start as \<^verbatim>\<open>nullptr\<close>.
\<close>

type_synonym Value = nat
type_synonym Type = nat
type_synonym BasicBlock = nat
type_synonym VariableRef = nat

text \<open>
  What the backend has emitted so far is kept as the list of instructions in the order of
  the \<^verbatim>\<open>Nucleus\<close> calls that created them; each call that yields a new SSA value
  returns the next unused handle.
\<close>

datatype Instruction =
    AllocaInst Value Type
  | StoreInst Value Value Type
  | LoadInst Value "Value option" Type
  | GEPInst Value "Value option" Type Value bool
  | BrInst BasicBlock
  | CondBrInst Value BasicBlock BasicBlock
  | RetVoidInst
  | RetInst Value

record Variable =
  rvalue :: "Value option"
  address :: "Value option"
  getType :: Type

text \<open>
  \<open>unmaterializedVariables\<close> is the thread-local
  \<^verbatim>\<open>std::unordered_set<const Variable *>\<close>. The order in which
  \<^verbatim>\<open>materializeAll\<close> iterates over the set is not specified; the list stands for the
  order of one run, and every order is a state of the model. What is proved below holds for
  every state and speaks of membership only, so it does not depend on the order.
\<close>

record Builder =
  variables :: "VariableRef \<Rightarrow> Variable"
  unmaterializedVariables :: "VariableRef list"
  instructions :: "Instruction list"
  nextValue :: Value
  insertBlock :: BasicBlock

subsection \<open>Nucleus: the calls made by variables\<close>

text \<open>
  \<^verbatim>\<open>Nucleus::allocateStackVariable\<close> creates an alloca, \<^verbatim>\<open>createLoad\<close> a load,
  \<^verbatim>\<open>createStore\<close> a store (it returns the stored value), \<^verbatim>\<open>createGEP\<close> an
  address computation. Variables call them with \<^verbatim>\<open>isVolatile = false\<close> and
  \<^verbatim>\<open>alignment = 0\<close>.
\<close>

definition Nucleus_allocateStackVariable :: "Type \<Rightarrow> Builder \<Rightarrow> Value \<times> Builder" where
  "Nucleus_allocateStackVariable ty s =
     (nextValue s,
      s\<lparr>instructions := instructions s @ [AllocaInst (nextValue s) ty],
        nextValue := Suc (nextValue s)\<rparr>)"

definition Nucleus_createLoad :: "Value option \<Rightarrow> Type \<Rightarrow> Builder \<Rightarrow> Value \<times> Builder" where
  "Nucleus_createLoad ptr ty s =
     (nextValue s,
      s\<lparr>instructions := instructions s @ [LoadInst (nextValue s) ptr ty],
        nextValue := Suc (nextValue s)\<rparr>)"

definition Nucleus_createStore :: "Value \<Rightarrow> Value \<Rightarrow> Type \<Rightarrow> Builder \<Rightarrow> Value \<times> Builder" where
  "Nucleus_createStore val ptr ty s =
     (val, s\<lparr>instructions := instructions s @ [StoreInst val ptr ty]\<rparr>)"

definition Nucleus_createGEP ::
  "Value option \<Rightarrow> Type \<Rightarrow> Value \<Rightarrow> bool \<Rightarrow> Builder \<Rightarrow> Value \<times> Builder" where
  "Nucleus_createGEP ptr ty index unsignedIndex s =
     (nextValue s,
      s\<lparr>instructions := instructions s @ [GEPInst (nextValue s) ptr ty index unsignedIndex],
        nextValue := Suc (nextValue s)\<rparr>)"

subsection \<open>rr::Variable\<close>

text \<open>\<open>setVariable this f\<close> writes the fields of the object at \<open>this\<close>.\<close>

definition setVariable :: "VariableRef \<Rightarrow> (Variable \<Rightarrow> Variable) \<Rightarrow> Builder \<Rightarrow> Builder" where
  "setVariable this f s = s\<lparr>variables := (variables s)(this := f (variables s this))\<rparr>"

text \<open>
  \<^verbatim>\<open>Variable::Variable()\<close> registers the object in the set,
  \<^verbatim>\<open>Variable::~Variable()\<close> erases it.
\<close>

definition Variable_ctor :: "VariableRef \<Rightarrow> Type \<Rightarrow> Builder \<Rightarrow> Builder" where
  "Variable_ctor this ty s =
     s\<lparr>variables := (variables s)(this := \<lparr>rvalue = None, address = None, getType = ty\<rparr>),
       unmaterializedVariables :=
         (if this \<in> set (unmaterializedVariables s) then unmaterializedVariables s
          else unmaterializedVariables s @ [this])\<rparr>"

definition Variable_dtor :: "VariableRef \<Rightarrow> Builder \<Rightarrow> Builder" where
  "Variable_dtor this s =
     s\<lparr>unmaterializedVariables := removeAll this (unmaterializedVariables s)\<rparr>"

definition allocate :: "VariableRef \<Rightarrow> Builder \<Rightarrow> Value \<times> Builder" where
  "allocate this s = Nucleus_allocateStackVariable (getType (variables s this)) s"

text \<open>
  \<^verbatim>\<open>Variable::storeValue\<close>: with an address, a store instruction; without, the value
  becomes the pending \<^verbatim>\<open>rvalue\<close>.
\<close>

definition storeValue :: "VariableRef \<Rightarrow> Value \<Rightarrow> Builder \<Rightarrow> Value \<times> Builder" where
  "storeValue this val s =
     (case address (variables s this) of
        Some a \<Rightarrow> Nucleus_createStore val a (getType (variables s this)) s
      | None \<Rightarrow> (val, setVariable this (\<lambda>v. v\<lparr>rvalue := Some val\<rparr>) s))"

text \<open>
  \<^verbatim>\<open>Variable::materialize\<close>: without an address, allocate the stack slot and, if a value
  is pending, store it (now through the address) and clear \<^verbatim>\<open>rvalue\<close>.
\<close>

definition materialize :: "VariableRef \<Rightarrow> Builder \<Rightarrow> Builder" where
  "materialize this s =
     (case address (variables s this) of
        None \<Rightarrow>
          (let (a, s1) = allocate this s;
               s2 = setVariable this (\<lambda>v. v\<lparr>address := Some a\<rparr>) s1
           in case rvalue (variables s2 this) of
                Some r \<Rightarrow>
                  (let (_, s3) = storeValue this r s2
                   in setVariable this (\<lambda>v. v\<lparr>rvalue := None\<rparr>) s3)
              | None \<Rightarrow> s2)
      | Some _ \<Rightarrow> s)"

text \<open>
  \<^verbatim>\<open>Variable::loadValue\<close>: the pending value if there is one; otherwise materialize (if
  needed) and load from the address.
\<close>

definition loadValue :: "VariableRef \<Rightarrow> Builder \<Rightarrow> Value \<times> Builder" where
  "loadValue this s =
     (case rvalue (variables s this) of
        Some r \<Rightarrow> (r, s)
      | None \<Rightarrow>
          (let s1 = (if address (variables s this) = None then materialize this s else s)
           in Nucleus_createLoad (address (variables s1 this)) (getType (variables s1 this)) s1))"

definition getBaseAddress :: "VariableRef \<Rightarrow> Builder \<Rightarrow> Value option \<times> Builder" where
  "getBaseAddress this s = (let s1 = materialize this s in (address (variables s1 this), s1))"

definition getElementPointer :: "VariableRef \<Rightarrow> Value \<Rightarrow> bool \<Rightarrow> Builder \<Rightarrow> Value \<times> Builder" where
  "getElementPointer this index unsignedIndex s =
     (let (a, s1) = getBaseAddress this s
      in Nucleus_createGEP a (getType (variables s1 this)) index unsignedIndex s1)"

text \<open>
  \<^verbatim>\<open>Variable::materializeAll\<close> materializes every variable of the set and clears the
  set. The model visits them in the order of the list; the code visits them in the order
  in which the unordered set yields them.
\<close>

definition materializeAll :: "Builder \<Rightarrow> Builder" where
  "materializeAll s =
     (let s1 = fold materialize (unmaterializedVariables s) s
      in s1\<lparr>unmaterializedVariables := []\<rparr>)"

definition killUnmaterialized :: "Builder \<Rightarrow> Builder" where
  "killUnmaterialized s = s\<lparr>unmaterializedVariables := []\<rparr>"

subsection \<open>Nucleus: block boundaries and returns\<close>

text \<open>
  \<^verbatim>\<open>Nucleus::setInsertBlock\<close>, \<^verbatim>\<open>createBr\<close> and \<^verbatim>\<open>createCondBr\<close> call
  \<^verbatim>\<open>Variable::materializeAll\<close> first; \<^verbatim>\<open>createRetVoid\<close> and \<^verbatim>\<open>createRet\<close> call
  \<^verbatim>\<open>Variable::killUnmaterialized\<close>.
\<close>

definition Nucleus_setInsertBlock :: "BasicBlock \<Rightarrow> Builder \<Rightarrow> Builder" where
  "Nucleus_setInsertBlock basicBlock s =
     (let s1 = materializeAll s in s1\<lparr>insertBlock := basicBlock\<rparr>)"

definition Nucleus_createBr :: "BasicBlock \<Rightarrow> Builder \<Rightarrow> Builder" where
  "Nucleus_createBr dest s =
     (let s1 = materializeAll s in s1\<lparr>instructions := instructions s1 @ [BrInst dest]\<rparr>)"

definition Nucleus_createCondBr :: "Value \<Rightarrow> BasicBlock \<Rightarrow> BasicBlock \<Rightarrow> Builder \<Rightarrow> Builder" where
  "Nucleus_createCondBr cond ifTrue ifFalse s =
     (let s1 = materializeAll s
      in s1\<lparr>instructions := instructions s1 @ [CondBrInst cond ifTrue ifFalse]\<rparr>)"

definition Nucleus_createRetVoid :: "Builder \<Rightarrow> Builder" where
  "Nucleus_createRetVoid s =
     (let s1 = killUnmaterialized s in s1\<lparr>instructions := instructions s1 @ [RetVoidInst]\<rparr>)"

definition Nucleus_createRet :: "Value \<Rightarrow> Builder \<Rightarrow> Builder" where
  "Nucleus_createRet v s =
     (let s1 = killUnmaterialized s in s1\<lparr>instructions := instructions s1 @ [RetInst v]\<rparr>)"

subsection \<open>One call on the routine under construction\<close>

text \<open>
  The calls above, as one step function on the builder state, so that a statement can
  range over every call.
\<close>

datatype Operation =
    OpConstruct VariableRef Type
  | OpDestroy VariableRef
  | OpStoreValue VariableRef Value
  | OpLoadValue VariableRef
  | OpGetBaseAddress VariableRef
  | OpGetElementPointer VariableRef Value bool
  | OpSetInsertBlock BasicBlock
  | OpCreateBr BasicBlock
  | OpCreateCondBr Value BasicBlock BasicBlock
  | OpCreateRetVoid
  | OpCreateRet Value

fun perform :: "Operation \<Rightarrow> Builder \<Rightarrow> Builder" where
  "perform (OpConstruct v ty) s = Variable_ctor v ty s"
| "perform (OpDestroy v) s = Variable_dtor v s"
| "perform (OpStoreValue v x) s = snd (storeValue v x s)"
| "perform (OpLoadValue v) s = snd (loadValue v s)"
| "perform (OpGetBaseAddress v) s = snd (getBaseAddress v s)"
| "perform (OpGetElementPointer v i u) s = snd (getElementPointer v i u s)"
| "perform (OpSetInsertBlock b) s = Nucleus_setInsertBlock b s"
| "perform (OpCreateBr b) s = Nucleus_createBr b s"
| "perform (OpCreateCondBr c t f) s = Nucleus_createCondBr c t f s"
| "perform OpCreateRetVoid s = Nucleus_createRetVoid s"
| "perform (OpCreateRet v) s = Nucleus_createRet v s"

fun takesAddress :: "Operation \<Rightarrow> VariableRef \<Rightarrow> bool" where
  "takesAddress (OpGetBaseAddress w) v = (w = v)"
| "takesAddress (OpGetElementPointer w i u) v = (w = v)"
| "takesAddress _ v = False"

fun blockBoundary :: "Operation \<Rightarrow> bool" where
  "blockBoundary (OpSetInsertBlock b) = True"
| "blockBoundary (OpCreateBr b) = True"
| "blockBoundary (OpCreateCondBr c t f) = True"
| "blockBoundary _ = False"

text \<open>
  \<open>pending s v x\<close>: \<open>v\<close> has no stack slot and \<open>x\<close> is its pending value.
  \<open>flushed s s' v x\<close>: in \<open>s'\<close> the variable has a stack slot \<open>a\<close> and no pending
  value, and the instructions emitted since \<open>s\<close> contain the alloca of \<open>a\<close> directly
  followed by the store of \<open>x\<close> to \<open>a\<close>.
\<close>

definition pending :: "Builder \<Rightarrow> VariableRef \<Rightarrow> Value \<Rightarrow> bool" where
  "pending s v x = (address (variables s v) = None \<and> rvalue (variables s v) = Some x)"

definition flushed :: "Builder \<Rightarrow> Builder \<Rightarrow> VariableRef \<Rightarrow> Value \<Rightarrow> bool" where
  "flushed s s' v x =
     (case address (variables s' v) of
        None \<Rightarrow> False
      | Some a \<Rightarrow>
          rvalue (variables s' v) = None \<and>
          (\<exists>pre post. instructions s' =
             instructions s @ pre @ [AllocaInst a (getType (variables s v)),
                                     StoreInst x a (getType (variables s v))] @ post))"

text \<open>A builder state with one variable, without a stack slot, for the examples.\<close>

definition builder0 :: Builder where
  "builder0 = \<lparr>variables = (\<lambda>_. \<lparr>rvalue = None, address = None, getType = 3\<rparr>),
                unmaterializedVariables = [0], instructions = [], nextValue = 10,
                insertBlock = 0\<rparr>"

subsection \<open>Materialization\<close>

lemmas materialize_defs =
  materialize_def allocate_def Nucleus_allocateStackVariable_def
  setVariable_def storeValue_def Nucleus_createStore_def Let_def

lemma materialize_pending:
  assumes "pending s v x"
  shows "rvalue (variables (materialize v s) v) = None
           \<and> address (variables (materialize v s) v) = Some (nextValue s)"
    and "instructions (materialize v s) =
           instructions s @ [AllocaInst (nextValue s) (getType (variables s v)),
                             StoreInst x (nextValue s) (getType (variables s v))]"
    and "nextValue (materialize v s) = Suc (nextValue s)"
  using assms by (simp_all add: pending_def materialize_defs)

lemma materialize_other:
  assumes "w \<noteq> v"
  shows "variables (materialize w s) v = variables s v"
  using assms by (auto simp: materialize_defs split: option.splits prod.splits)

lemma materialize_instructions:
  "\<exists>post. instructions (materialize w s) = instructions s @ post"
  by (auto simp: materialize_defs split: option.splits prod.splits)

lemma materialize_getType:
  "getType (variables (materialize w s) v) = getType (variables s v)"
  by (auto simp: materialize_defs split: option.splits prod.splits)

lemma materialize_idem:
  assumes "address (variables s v) \<noteq> None"
  shows "materialize v s = s"
  using assms by (auto simp: materialize_def)

lemma materialize_unmat:
  "unmaterializedVariables (materialize w s) = unmaterializedVariables s"
  by (auto simp: materialize_defs split: option.splits prod.splits)

lemma materialize_address:
  "address (variables s v) \<noteq> None \<Longrightarrow> variables (materialize w s) v = variables s v"
  by (cases "w = v") (auto simp: materialize_other materialize_idem)

lemma fold_materialize_instructions:
  "\<exists>post. instructions (fold materialize ws s) = instructions s @ post"
proof (induction ws arbitrary: s)
  case Nil
  then show ?case by simp
next
  case (Cons w ws)
  obtain p1 where p1: "instructions (materialize w s) = instructions s @ p1"
    using materialize_instructions by blast
  obtain p2 where "instructions (fold materialize ws (materialize w s))
      = instructions (materialize w s) @ p2"
    using Cons.IH by blast
  with p1 show ?case by simp
qed

lemma fold_materialize_getType:
  "getType (variables (fold materialize ws s) v) = getType (variables s v)"
  by (induction ws arbitrary: s) (simp_all add: materialize_getType)

lemma fold_materialize_unmat:
  "unmaterializedVariables (fold materialize ws s) = unmaterializedVariables s"
  by (induction ws arbitrary: s) (simp_all add: materialize_unmat)

lemma fold_materialize_keeps:
  "address (variables s v) \<noteq> None \<Longrightarrow> variables (fold materialize ws s) v = variables s v"
proof (induction ws arbitrary: s)
  case Nil
  then show ?case by simp
next
  case (Cons w ws)
  have "variables (materialize w s) v = variables s v"
    using Cons.prems by (rule materialize_address)
  with Cons show ?case by simp
qed

lemma fold_materialize_absent:
  "v \<notin> set ws \<Longrightarrow> variables (fold materialize ws s) v = variables s v"
  by (induction ws arbitrary: s) (auto simp: materialize_other)

lemma fold_materialize_flushes:
  assumes "pending s v x" and "v \<in> set ws"
  shows "flushed s (fold materialize ws s) v x"
  using assms
proof (induction ws arbitrary: s)
  case Nil
  then show ?case by simp
next
  case (Cons w ws)
  show ?case
  proof (cases "w = v")
    case True
    let ?s1 = "materialize v s"
    have v1: "rvalue (variables ?s1 v) = None \<and> address (variables ?s1 v) = Some (nextValue s)"
      using materialize_pending(1) [OF Cons.prems(1)] by simp
    then have a1: "address (variables ?s1 v) \<noteq> None" by simp
    have keep: "variables (fold materialize ws ?s1) v = variables ?s1 v"
      using a1 by (rule fold_materialize_keeps)
    obtain post where post: "instructions (fold materialize ws ?s1) = instructions ?s1 @ post"
      using fold_materialize_instructions by blast
    have "instructions (fold materialize ws ?s1) =
        instructions s @ [] @ [AllocaInst (nextValue s) (getType (variables s v)),
                             StoreInst x (nextValue s) (getType (variables s v))] @ post"
      using post materialize_pending(2) [OF Cons.prems(1)] by simp
    then show ?thesis
      using True keep v1 unfolding flushed_def by (simp only: fold_simps comp_apply) (simp, blast)
  next
    case False
    let ?s1 = "materialize w s"
    have p1: "pending ?s1 v x"
      using Cons.prems(1) False by (simp add: pending_def materialize_other)
    have "v \<in> set ws" using Cons.prems(2) False by simp
    then have fl: "flushed ?s1 (fold materialize ws ?s1) v x"
      using Cons.IH p1 by blast
    obtain p0 where p0: "instructions ?s1 = instructions s @ p0"
      using materialize_instructions by blast
    have ty: "getType (variables ?s1 v) = getType (variables s v)"
      by (rule materialize_getType)
    show ?thesis
      using fl p0 ty unfolding flushed_def
      by (auto split: option.splits) (metis append.assoc)
  qed
qed


lemma flushed_materialize:
  assumes "pending s v x"
  shows "flushed s (materialize v s) v x"
proof -
  have "\<exists>pre post. instructions (materialize v s) =
      instructions s @ pre @ [AllocaInst (nextValue s) (getType (variables s v)),
                              StoreInst x (nextValue s) (getType (variables s v))] @ post"
    using materialize_pending(2) [OF assms] by (intro exI [of _ "[]"]) simp
  then show ?thesis
    using materialize_pending(1) [OF assms] unfolding flushed_def by simp
qed

lemma flushed_extend:
  assumes "flushed s s1 v x"
    and "variables s2 = variables s1"
    and "instructions s2 = instructions s1 @ extra"
  shows "flushed s s2 v x"
  using assms unfolding flushed_def
  by (auto split: option.splits) blast

lemma materializeAll_flushes:
  assumes "pending s v x" and "v \<in> set (unmaterializedVariables s)"
  shows "flushed s (materializeAll s) v x"
proof -
  have "flushed s (fold materialize (unmaterializedVariables s) s) v x"
    using assms by (rule fold_materialize_flushes)
  then show ?thesis
    by (rule flushed_extend [where extra = "[]"]) (simp_all add: materializeAll_def Let_def)
qed

lemma materializeAll_absent:
  assumes "v \<notin> set (unmaterializedVariables s)"
  shows "variables (materializeAll s) v = variables s v"
  using assms by (simp add: materializeAll_def Let_def fold_materialize_absent)

lemma perform_flushes:
  assumes "pending s v x"
    and "takesAddress op v \<or> (blockBoundary op \<and> v \<in> set (unmaterializedVariables s))"
  shows "flushed s (perform op s) v x"
proof (cases op)
  case (OpGetBaseAddress w)
  then show ?thesis
    using assms flushed_materialize [OF assms(1)] by (simp add: getBaseAddress_def Let_def)
next
  case (OpGetElementPointer w i u)
  then have w: "w = v" using assms(2) by simp
  show ?thesis
    unfolding OpGetElementPointer w
    by (rule flushed_extend [OF flushed_materialize [OF assms(1)]])
       (simp_all add: getElementPointer_def getBaseAddress_def Nucleus_createGEP_def Let_def)
next
  case (OpSetInsertBlock b)
  then have "v \<in> set (unmaterializedVariables s)" using assms(2) by simp
  then have "flushed s (materializeAll s) v x" using assms(1) by (simp add: materializeAll_flushes)
  then show ?thesis
    unfolding OpSetInsertBlock
    by (rule flushed_extend [where extra = "[]"]) (simp_all add: Nucleus_setInsertBlock_def Let_def)
next
  case (OpCreateBr b)
  then have "v \<in> set (unmaterializedVariables s)" using assms(2) by simp
  then have "flushed s (materializeAll s) v x" using assms(1) by (simp add: materializeAll_flushes)
  then show ?thesis
    unfolding OpCreateBr
    by (rule flushed_extend) (simp_all add: Nucleus_createBr_def Let_def)
next
  case (OpCreateCondBr c t f)
  then have "v \<in> set (unmaterializedVariables s)" using assms(2) by simp
  then have "flushed s (materializeAll s) v x" using assms(1) by (simp add: materializeAll_flushes)
  then show ?thesis
    unfolding OpCreateCondBr
    by (rule flushed_extend) (simp_all add: Nucleus_createCondBr_def Let_def)
qed (use assms(2) in simp_all)

lemma perform_keeps_unmaterialized:
  assumes "pending s v x"
    and "\<not> (takesAddress op v \<or> (blockBoundary op \<and> v \<in> set (unmaterializedVariables s)))"
  shows "address (variables (perform op s) v) = None"
proof (cases op)
  case (OpConstruct w ty)
  then show ?thesis using assms(1) by (simp add: Variable_ctor_def pending_def)
next
  case (OpDestroy w)
  then show ?thesis using assms(1) by (simp add: Variable_dtor_def pending_def)
next
  case (OpStoreValue w y)
  then show ?thesis using assms(1)
    by (auto simp: storeValue_def Nucleus_createStore_def setVariable_def pending_def
        split: option.splits)
next
  case (OpLoadValue w)
  show ?thesis
  proof (cases "w = v")
    case True
    then show ?thesis using assms(1) OpLoadValue by (simp add: loadValue_def pending_def)
  next
    case False
    then have "variables (materialize w s) v = variables s v" by (rule materialize_other)
    then show ?thesis using assms(1) OpLoadValue
      by (auto simp: loadValue_def Nucleus_createLoad_def pending_def Let_def
          split: option.splits)
  qed
next
  case (OpGetBaseAddress w)
  then have "w \<noteq> v" using assms(2) by simp
  then have "variables (materialize w s) v = variables s v" by (rule materialize_other)
  then show ?thesis using assms(1) OpGetBaseAddress
    by (simp add: getBaseAddress_def Let_def pending_def)
next
  case (OpGetElementPointer w i u)
  then have "w \<noteq> v" using assms(2) by simp
  then have "variables (materialize w s) v = variables s v" by (rule materialize_other)
  then show ?thesis using assms(1) OpGetElementPointer
    by (simp add: getElementPointer_def getBaseAddress_def Nucleus_createGEP_def Let_def
        pending_def)
next
  case (OpSetInsertBlock b)
  then have "v \<notin> set (unmaterializedVariables s)" using assms(2) by simp
  then have "variables (materializeAll s) v = variables s v" by (rule materializeAll_absent)
  then show ?thesis using assms(1) OpSetInsertBlock
    by (simp add: Nucleus_setInsertBlock_def Let_def pending_def)
next
  case (OpCreateBr b)
  then have "v \<notin> set (unmaterializedVariables s)" using assms(2) by simp
  then have "variables (materializeAll s) v = variables s v" by (rule materializeAll_absent)
  then show ?thesis using assms(1) OpCreateBr
    by (simp add: Nucleus_createBr_def Let_def pending_def)
next
  case (OpCreateCondBr c t f)
  then have "v \<notin> set (unmaterializedVariables s)" using assms(2) by simp
  then have "variables (materializeAll s) v = variables s v" by (rule materializeAll_absent)
  then show ?thesis using assms(1) OpCreateCondBr
    by (simp add: Nucleus_createCondBr_def Let_def pending_def)
next
  case OpCreateRetVoid
  then show ?thesis using assms(1)
    by (simp add: Nucleus_createRetVoid_def killUnmaterialized_def Let_def pending_def)
next
  case (OpCreateRet r)
  then show ?thesis using assms(1)
    by (simp add: Nucleus_createRet_def killUnmaterialized_def Let_def pending_def)
qed

lemma storeValue_unmaterialized:
  assumes "address (variables s v) = None"
  shows "fst (storeValue v x s) = x"
    and "instructions (snd (storeValue v x s)) = instructions s"
    and "pending (snd (storeValue v x s)) v x"
    and "unmaterializedVariables (snd (storeValue v x s)) = unmaterializedVariables s"
  using assms by (simp_all add: storeValue_def setVariable_def pending_def)

lemma loadValue_pending:
  assumes "pending t v x"
  shows "loadValue v t = (x, t)"
  using assms by (simp add: loadValue_def pending_def)

text \<open>
  Claim C9. For a variable \<open>v\<close> without a stack slot: \<open>storeValue v x\<close> returns \<open>x\<close>,
  emits no instruction and leaves \<open>v\<close> without a slot, with \<open>x\<close> as its pending value;
  a following \<open>loadValue v\<close> returns \<open>x\<close> and changes nothing; and a further call
  gives \<open>v\<close> a stack slot exactly when it takes the address of \<open>v\<close>
  (\<open>getBaseAddress\<close>, \<open>getElementPointer\<close>) or is a block boundary
  (\<open>setInsertBlock\<close>, \<open>createBr\<close>, \<open>createCondBr\<close>) reached while \<open>v\<close> is in the set
  of unmaterialized variables; whenever that happens, the alloca and the store of the
  pending value \<open>x\<close> into the new slot have been emitted and the pending value is cleared.
\<close>

theorem unmaterialized_store_load_materialize:
  assumes "address (variables s v) = None"
  shows "(let t = snd (storeValue v x s) in
            fst (storeValue v x s) = x
          \<and> instructions t = instructions s
          \<and> address (variables t v) = None
          \<and> rvalue (variables t v) = Some x
          \<and> loadValue v t = (x, t)
          \<and> (\<forall>op. (address (variables (perform op t) v) \<noteq> None)
                  = (takesAddress op v
                     \<or> (blockBoundary op \<and> v \<in> set (unmaterializedVariables t))))
          \<and> (\<forall>op. address (variables (perform op t) v) \<noteq> None
                  \<longrightarrow> flushed t (perform op t) v x))"
proof -
  let ?t = "snd (storeValue v x s)"
  have p: "pending ?t v x" using assms by (rule storeValue_unmaterialized(3))
  have trig: "(address (variables (perform op ?t) v) \<noteq> None)
      = (takesAddress op v \<or> (blockBoundary op \<and> v \<in> set (unmaterializedVariables ?t)))" for op
  proof
    assume a: "address (variables (perform op ?t) v) \<noteq> None"
    show "takesAddress op v \<or> (blockBoundary op \<and> v \<in> set (unmaterializedVariables ?t))"
    proof (rule ccontr)
      assume "\<not> (takesAddress op v
                 \<or> (blockBoundary op \<and> v \<in> set (unmaterializedVariables ?t)))"
      then have "address (variables (perform op ?t) v) = None"
        by (rule perform_keeps_unmaterialized [OF p])
      with a show False by simp
    qed
  next
    assume "takesAddress op v \<or> (blockBoundary op \<and> v \<in> set (unmaterializedVariables ?t))"
    then have "flushed ?t (perform op ?t) v x" using p by (simp add: perform_flushes)
    then show "address (variables (perform op ?t) v) \<noteq> None"
      unfolding flushed_def by (auto split: option.splits)
  qed
  have fl: "address (variables (perform op ?t) v) \<noteq> None
      \<longrightarrow> flushed ?t (perform op ?t) v x" for op
    using trig [of op] perform_flushes [OF p] by blast
  show ?thesis
    unfolding Let_def
    using storeValue_unmaterialized(1,2) [OF assms] p loadValue_pending [OF p] trig fl
    by (simp add: pending_def)
qed

theorem unmaterialized_store_load_materialize_witness:
  "address (variables builder0 0) = None
   \<and> storeValue 0 7 builder0
       = (7, builder0\<lparr>variables := (variables builder0)
                (0 := \<lparr>rvalue = Some 7, address = None, getType = 3\<rparr>)\<rparr>)
   \<and> instructions (snd (storeValue 0 7 builder0)) = []
   \<and> fst (loadValue 0 (snd (storeValue 0 7 builder0))) = 7
   \<and> instructions (perform (OpCreateBr 1) (snd (storeValue 0 7 builder0)))
       = [AllocaInst 10 3, StoreInst 7 10 3, BrInst 1]
   \<and> address (variables (perform (OpCreateBr 1) (snd (storeValue 0 7 builder0))) 0) = Some 10
   \<and> flushed (snd (storeValue 0 7 builder0))
        (perform (OpCreateBr 1) (snd (storeValue 0 7 builder0))) 0 7"
proof -
  let ?t = "snd (storeValue 0 7 builder0)"
  let ?u = "perform (OpCreateBr 1) ?t"
  have h: "address (variables builder0 0) = None" by (simp add: builder0_def)
  note T = unmaterialized_store_load_materialize [OF h, of 7, unfolded Let_def]
  have c1: "storeValue 0 7 builder0
       = (7, builder0\<lparr>variables := (variables builder0)
                (0 := \<lparr>rvalue = Some 7, address = None, getType = 3\<rparr>)\<rparr>)"
    by (simp add: builder0_def storeValue_def setVariable_def)
  have c2: "instructions ?t = []"
    using T by (simp add: builder0_def)
  have c3: "fst (loadValue 0 ?t) = 7"
    using T by simp
  have c4: "instructions ?u = [AllocaInst 10 3, StoreInst 7 10 3, BrInst 1]"
    by (simp add: builder0_def Nucleus_createBr_def materializeAll_def materialize_defs)
  have c5: "address (variables ?u 0) = Some 10"
    by (simp add: builder0_def Nucleus_createBr_def materializeAll_def materialize_defs)
  have "address (variables ?u 0) \<noteq> None \<longrightarrow> flushed ?t ?u 0 7"
    using T by blast
  with c5 have c6: "flushed ?t ?u 0 7" by simp
  from h c1 c2 c3 c4 c5 c6 show ?thesis by blast
qed

section \<open>Preprocessor input (src/OpenGL/compiler/preprocessor/Input.cpp)\<close>

text \<open>
  \<^verbatim>\<open>pp::Input\<close> holds \<open>mCount\<close> source strings, their lengths and the read position
  \<open>mReadLoc = (sIndex, cIndex)\<close>. A source string is the list of its characters; reading
  the character at its length yields the terminating NUL (\<open>charAt\<close>). The constructor
  computes each length with \<^verbatim>\<open>strlen\<close> when no length array is given or the given length
  is negative.
\<close>

definition INT_MAX :: int where
  "INT_MAX = 2147483647"

definition backslash :: char where
  "backslash = CHR 0x5C"

definition newline :: char where
  "newline = CHR 0x0A"

definition carriage_return :: char where
  "carriage_return = CHR 0x0D"

record Location =
  sIndex :: nat
  cIndex :: nat

record Input =
  mCount :: nat
  mString :: "string list"
  mLength :: "nat list"
  mReadLoc :: Location

definition strlen :: "string \<Rightarrow> nat" where
  "strlen s = length (takeWhile (\<lambda>c. c \<noteq> CHR 0x00) s)"

definition charAt :: "string \<Rightarrow> nat \<Rightarrow> char" where
  "charAt s i = (if i < length s then s ! i else CHR 0x00)"

definition Input_ctor :: "string list \<Rightarrow> int list option \<Rightarrow> Input" where
  "Input_ctor string len =
     \<lparr>mCount = length string,
      mString = string,
      mLength = map (\<lambda>i. let len_i = (case len of None \<Rightarrow> -1 | Some ls \<Rightarrow> ls ! i)
                          in if len_i < 0 then strlen (string ! i) else nat len_i)
                    [0..<length string],
      mReadLoc = \<lparr>sIndex = 0, cIndex = 0\<rparr>\<rparr>"

text \<open>
  \<^verbatim>\<open>Input::skipChar\<close>. The result \<open>None\<close> is the failure of its
  \<^verbatim>\<open>assert(mReadLoc.cIndex < mLength[mReadLoc.sIndex])\<close>; otherwise it returns the
  character the returned pointer points to (\<open>None\<close> for \<^verbatim>\<open>nullptr\<close>) and the input
  with the advanced read position. It advances over at most one string boundary.
\<close>

definition skipChar :: "Input \<Rightarrow> (char option \<times> Input) option" where
  "skipChar inp =
     (let loc = mReadLoc inp in
      if \<not> cIndex loc < mLength inp ! sIndex loc then None
      else
        let loc1 = loc\<lparr>cIndex := cIndex loc + 1\<rparr>;
            loc2 = (if cIndex loc1 = mLength inp ! sIndex loc1
                    then \<lparr>sIndex = sIndex loc1 + 1, cIndex = 0\<rparr> else loc1);
            inp' = inp\<lparr>mReadLoc := loc2\<rparr>
        in if sIndex loc2 \<ge> mCount inp then Some (None, inp')
           else Some (Some (charAt (mString inp ! sIndex loc2) (cIndex loc2)), inp'))"

text \<open>
  The inner \<^verbatim>\<open>for\<close> loop of \<^verbatim>\<open>Input::read\<close>: it looks at the characters
  \<open>start + i\<close> for \<open>i < size\<close>; at a backslash it sets \<open>size = i\<close> and
  \<open>maxRead = nRead + size\<close> (which ends the loop).
\<close>

function scanBackslash ::
  "string \<Rightarrow> nat \<Rightarrow> nat \<Rightarrow> nat \<Rightarrow> nat \<Rightarrow> nat \<Rightarrow> nat \<times> nat" where
  "scanBackslash str start nRead i sz maxRead =
     (if i < sz then
        (if charAt str (start + i) = backslash
         then scanBackslash str start nRead (i + 1) i (nRead + i)
         else scanBackslash str start nRead (i + 1) sz maxRead)
      else (sz, maxRead))"
  by pat_completeness auto
termination
  by (relation "measure (\<lambda>(str, start, nRead, i, sz, maxRead). sz - i)") auto

definition memcpy :: "string \<Rightarrow> nat \<Rightarrow> nat \<Rightarrow> string" where
  "memcpy str start sz = map (\<lambda>k. charAt str (start + k)) [0..<sz]"

text \<open>
  The \<^verbatim>\<open>while\<close> loop of \<^verbatim>\<open>Input::read\<close>. The buffer \<open>buf\<close> is the list of the
  bytes written so far, so \<open>nRead = length buf\<close>; the model keeps every copied byte, also
  where \<open>nRead\<close> grows beyond \<open>maxSize\<close> (the source limits each copy by \<open>maxSize\<close>, not
  by what is left of it). The loop is written as the source has it; where it would not
  return, the value is \<open>None\<close>.
\<close>

partial_function (option) copyLoop ::
  "Input \<Rightarrow> nat \<Rightarrow> string \<Rightarrow> nat \<Rightarrow> (string \<times> Input) option" where
  "copyLoop inp maxSize buf maxRead =
     (let loc = mReadLoc inp in
      if length buf < maxRead \<and> sIndex loc < mCount inp then
        (let sz0 = min (mLength inp ! sIndex loc - cIndex loc) maxSize;
             found = scanBackslash (mString inp ! sIndex loc) (cIndex loc) (length buf) 0 sz0 maxRead;
             sz = fst found;
             maxRead' = snd found;
             buf' = buf @ memcpy (mString inp ! sIndex loc) (cIndex loc) sz;
             loc1 = loc\<lparr>cIndex := cIndex loc + sz\<rparr>;
             loc2 = (if cIndex loc1 = mLength inp ! sIndex loc1
                     then \<lparr>sIndex = sIndex loc1 + 1, cIndex = 0\<rparr> else loc1)
         in copyLoop (inp\<lparr>mReadLoc := loc2\<rparr>) maxSize buf' maxRead')
      else Some (buf, inp))"

declare copyLoop.simps [code]

definition currentChar :: "Input \<Rightarrow> char" where
  "currentChar inp = charAt (mString inp ! sIndex (mReadLoc inp)) (cIndex (mReadLoc inp))"

text \<open>
  \<^verbatim>\<open>Input::read(buf, maxSize, lineNo)\<close> returns the bytes written to \<open>buf\<close> (their number
  is the function's result), the line number and the input. \<open>None\<close>: an assertion of
  \<open>skipChar\<close> failed.
\<close>

definition read :: "Input \<Rightarrow> nat \<Rightarrow> int \<Rightarrow> (string \<times> int \<times> Input) option" where
  "read inp maxSize lineNo =
     (let finish = (\<lambda>inp' buf lineNo'.
            case copyLoop inp' maxSize buf maxSize of
              None \<Rightarrow> None
            | Some (buf', inp'') \<Rightarrow> Some (buf', lineNo', inp''))
      in
      if sIndex (mReadLoc inp) < mCount inp \<and> 0 < maxSize \<and> currentChar inp = backslash then
        (case skipChar inp of
           None \<Rightarrow> None
         | Some (c, inp1) \<Rightarrow>
             if c = Some newline then
               (case skipChar inp1 of
                  None \<Rightarrow> None
                | Some (_, inp2) \<Rightarrow>
                    if lineNo = INT_MAX then Some ([], lineNo, inp2)
                    else finish inp2 [] (lineNo + 1))
             else if c = Some carriage_return then
               (case skipChar inp1 of
                  None \<Rightarrow> None
                | Some (c2, inp2) \<Rightarrow>
                    (case (if c2 = Some newline then skipChar inp2 else Some (c2, inp2)) of
                       None \<Rightarrow> None
                     | Some (_, inp3) \<Rightarrow>
                         if lineNo = INT_MAX then Some ([], lineNo, inp3)
                         else finish inp3 [] (lineNo + 1)))
             else finish inp1 [backslash] lineNo)
      else finish inp [] lineNo)"

text \<open>
  Two inputs with the same characters (\<open>a\<close>, backslash, newline, \<open>b\<close>): in \<open>sources_adjacent\<close> the
  backslash ends the first string and the newline starts the second; in \<open>sources_gap\<close>
  an empty string lies between them.
\<close>

definition sources_adjacent :: Input where
  "sources_adjacent = Input_ctor [[CHR ''a'', backslash], [newline, CHR ''b'']] None"

definition sources_gap :: Input where
  "sources_gap = Input_ctor [[CHR ''a'', backslash], [], [newline, CHR ''b'']] None"

definition at_location :: "Input \<Rightarrow> nat \<Rightarrow> nat \<Rightarrow> Input" where
  "at_location inp s c = inp\<lparr>mReadLoc := \<lparr>sIndex = s, cIndex = c\<rparr>\<rparr>"

subsection \<open>Line continuation\<close>

text \<open>
  Claim C2, at a concrete input. Three source strings (\<open>a\<close> and a backslash; the
  empty string; a newline and \<open>b\<close>; no length array), read with \<open>maxSize = 100\<close> from line 1: the first call returns \<open>a\<close> and stops
  before the backslash; the second call returns the three characters backslash, newline,
  \<open>b\<close> and leaves the line number at 1, although in the character stream the backslash
  is immediately followed by the newline. \<open>skipChar\<close> steps over one string boundary only
  and so sees the NUL of the empty string instead of the newline. Without the empty string
  (\<open>sources_adjacent\<close>) the second call removes the continuation, returns \<open>b\<close> and
  increments the line number to 2.
\<close>

theorem read_keeps_continuation_across_empty_string:
  "read sources_gap 100 1 = Some (''a'', 1, at_location sources_gap 0 1)
   \<and> read (at_location sources_gap 0 1) 100 1
       = Some ([backslash, newline, CHR ''b''], 1, at_location sources_gap 3 0)
   \<and> read sources_adjacent 100 1 = Some (''a'', 1, at_location sources_adjacent 0 1)
   \<and> read (at_location sources_adjacent 0 1) 100 1
       = Some (''b'', 2, at_location sources_adjacent 2 0)"
  by code_simp

section \<open>Directive parser (DirectiveParser.cpp)\<close>

text \<open>
  Modelled from the spec: the token and macro types (\<^verbatim>\<open>Token.h\<close>, \<^verbatim>\<open>Macro.h\<close>,
  \<^verbatim>\<open>SourceLocation.h\<close> are not among the sources). A token is
  \<open>(kind, text, location, flags)\<close>, the flags holding \<open>leading_space\<close>; a location is
  \<open>(file, line)\<close>; a macro is \<open>{name, kind, parameters, replacement, predefined,
  expansion_count}\<close>. The kind of a single-character token is the character
  (\<open>Punctuator\<close>).
\<close>

datatype TokenType =
    LAST
  | IDENTIFIER
  | CONST_INT
  | CONST_FLOAT
  | OP_OTHER
  | PP_HASH
  | PP_NUMBER
  | PP_OTHER
  | Punctuator char

record SourceLocation =
  loc_file :: int
  loc_line :: int

definition SourceLocation_default :: SourceLocation where
  "SourceLocation_default = \<lparr>loc_file = 0, loc_line = 0\<rparr>"

record Token =
  token_type :: TokenType
  hasLeadingSpace :: bool
  location :: SourceLocation
  token_text :: string

datatype MacroType = kTypeObj | kTypeFunc

record Macro =
  predefined :: bool
  expansionCount :: nat
  macro_type :: MacroType
  macro_name :: string
  parameters :: "string list"
  replacements :: "Token list"

type_synonym MacroSet = "string \<rightharpoonup> Macro"

text \<open>
  Modelled from the spec: the diagnostics sink and the directive handler
  (\<^verbatim>\<open>DiagnosticsBase.h\<close>, \<^verbatim>\<open>DirectiveHandlerBase.h\<close> are not among the sources).
  Errors are reported to the sink and do not abort: the sink is the list of the reports
  \<open>(id, location, text)\<close> made so far, the handler the list of the calls made on it.
\<close>

datatype DiagnosticsID =
    PP_INTEGER_OVERFLOW
  | PP_INVALID_EXPRESSION
  | PP_DIVISION_BY_ZERO
  | PP_UNEXPECTED_TOKEN
  | PP_DIRECTIVE_INVALID_NAME
  | PP_MACRO_NAME_RESERVED
  | PP_MACRO_REDEFINED
  | PP_MACRO_PREDEFINED_REDEFINED
  | PP_MACRO_PREDEFINED_UNDEFINED
  | PP_MACRO_UNDEFINED_WHILE_INVOKED
  | PP_MACRO_DUPLICATE_PARAMETER_NAMES
  | PP_WARNING_MACRO_NAME_RESERVED
  | PP_CONDITIONAL_ENDIF_WITHOUT_IF
  | PP_CONDITIONAL_ELSE_WITHOUT_IF
  | PP_CONDITIONAL_ELSE_AFTER_ELSE
  | PP_CONDITIONAL_ELIF_WITHOUT_IF
  | PP_CONDITIONAL_ELIF_AFTER_ELSE
  | PP_CONDITIONAL_UNTERMINATED
  | PP_CONDITIONAL_UNEXPECTED_TOKEN
  | PP_INVALID_EXTENSION_NAME
  | PP_INVALID_EXTENSION_BEHAVIOR
  | PP_INVALID_EXTENSION_DIRECTIVE
  | PP_INVALID_VERSION_NUMBER
  | PP_INVALID_VERSION_DIRECTIVE
  | PP_VERSION_NOT_FIRST_STATEMENT
  | PP_VERSION_NOT_FIRST_LINE_ESSL3
  | PP_INVALID_LINE_NUMBER
  | PP_INVALID_FILE_NUMBER
  | PP_INVALID_LINE_DIRECTIVE
  | PP_NON_PP_TOKEN_BEFORE_EXTENSION_ESSL1
  | PP_NON_PP_TOKEN_BEFORE_EXTENSION_ESSL3
  | PP_UNRECOGNIZED_PRAGMA
  | PP_EOF_IN_DIRECTIVE

type_synonym Report = "DiagnosticsID \<times> SourceLocation \<times> string"

datatype HandlerCall =
    handleError SourceLocation string
  | handlePragma SourceLocation string string bool
  | handleExtension SourceLocation string string
  | handleVersion SourceLocation int

text \<open>
  Modelled from the spec: the tokenizer (\<^verbatim>\<open>Tokenizer.h\<close> is not among the sources) yields
  tokens plus newline markers and, at the end of the input, the \<open>LAST\<close> token for ever.
  It is the list of the tokens it will still yield; \<^verbatim>\<open>setLineNumber\<close> and
  \<^verbatim>\<open>setFileNumber\<close> are recorded as calls.
\<close>

datatype TokenizerCall = setLineNumber int | setFileNumber int

text \<open>
  The uses that the directive parser makes of the expression parser: the expression of
  \<^verbatim>\<open>#if\<close> and \<^verbatim>\<open>#elif\<close>, and the line and file numbers of \<^verbatim>\<open>#line\<close>.
\<close>

datatype ParserUse = IfExpression | LineNumber | FileNumber

text \<open>
  \<^verbatim>\<open>DirectiveParser::ConditionalBlock\<close> (all flags start false) and the parser's state.
  \<open>mDiagnostics\<close>, \<open>mDirectiveHandler\<close> and \<open>mExpressionParser\<close> are the calls made
  so far on the sink, on the handler and on the expression parser; the conditional stack
  grows at its end (\<^verbatim>\<open>push_back\<close>, \<^verbatim>\<open>back\<close>, \<^verbatim>\<open>pop_back\<close>).
\<close>

record ConditionalBlock =
  block_type :: string
  block_location :: SourceLocation
  skipBlock :: bool
  skipGroup :: bool
  foundElseGroup :: bool
  foundValidGroup :: bool

definition ConditionalBlock_default :: ConditionalBlock where
  "ConditionalBlock_default =
     \<lparr>block_type = [], block_location = SourceLocation_default, skipBlock = False,
      skipGroup = False, foundElseGroup = False, foundValidGroup = False\<rparr>"

record DirectiveParser =
  mPastFirstStatement :: bool
  mSeenNonPreprocessorToken :: bool
  mConditionalStack :: "ConditionalBlock list"
  mTokenizer :: "Token list"
  mTokenizerCalls :: "TokenizerCall list"
  mMacroSet :: MacroSet
  mDiagnostics :: "Report list"
  mDirectiveHandler :: "HandlerCall list"
  mExpressionParser :: "ParserUse list"
  mShaderVersion :: int
  mMaxMacroExpansionDepth :: int

text \<open>
  Modelled from the spec: the macro expander, the expression parser, \<^verbatim>\<open>Token::iValue\<close>
  and the number printing of \<^verbatim>\<open>PredefineMacro\<close> (\<^verbatim>\<open>MacroExpander.h\<close>,
  \<^verbatim>\<open>ExpressionParser.h\<close>, \<^verbatim>\<open>Token.cpp\<close>, \<^verbatim>\<open>Macro.cpp\<close> are not among the
  sources) are parameters of the model. A run of the expression parser or of the macro
  expander on the macro table, the current token and the remaining tokens yields a value,
  a validity flag, the token it leaves in \<^verbatim>\<open>*token\<close>, the number of tokens it took from
  the tokenizer and the diagnostics it reported. \<open>iValue\<close> is \<open>None\<close> where
  \<^verbatim>\<open>Token::iValue\<close> returns false.
\<close>

record Parsed =
  parsed_value :: int
  parsed_valid :: bool
  parsed_token :: Token
  parsed_consumed :: nat
  parsed_reports :: "Report list"

record Externals =
  iValue :: "string \<Rightarrow> int option"
  to_string :: "int \<Rightarrow> string"
  macroExpander_lex :: "MacroSet \<Rightarrow> Token list \<Rightarrow> Parsed"
  expressionParser_parse :: "ParserUse \<Rightarrow> MacroSet \<Rightarrow> Token \<Rightarrow> Token list \<Rightarrow> Parsed"

definition DirectiveParser_ctor :: "Token list \<Rightarrow> MacroSet \<Rightarrow> int \<Rightarrow> DirectiveParser" where
  "DirectiveParser_ctor tokenizer macroSet maxMacroExpansionDepth =
     \<lparr>mPastFirstStatement = False, mSeenNonPreprocessorToken = False,
      mConditionalStack = [], mTokenizer = tokenizer, mTokenizerCalls = [],
      mMacroSet = macroSet, mDiagnostics = [], mDirectiveHandler = [],
      mExpressionParser = [], mShaderVersion = 100,
      mMaxMacroExpansionDepth = maxMacroExpansionDepth\<rparr>"

text \<open>The token of the exhausted tokenizer, and \<^verbatim>\<open>mTokenizer->lex(token)\<close>.\<close>

definition eofToken :: Token where
  "eofToken = \<lparr>token_type = LAST, hasLeadingSpace = False,
               location = SourceLocation_default, token_text = []\<rparr>"

definition Tokenizer_lex :: "DirectiveParser \<Rightarrow> Token \<times> DirectiveParser" where
  "Tokenizer_lex s =
     (case mTokenizer s of
        [] \<Rightarrow> (eofToken, s)
      | t # ts \<Rightarrow> (t, s\<lparr>mTokenizer := ts\<rparr>))"

definition report :: "DiagnosticsID \<Rightarrow> SourceLocation \<Rightarrow> string \<Rightarrow> DirectiveParser \<Rightarrow> DirectiveParser" where
  "report d loc txt s = s\<lparr>mDiagnostics := mDiagnostics s @ [(d, loc, txt)]\<rparr>"

definition handle :: "HandlerCall \<Rightarrow> DirectiveParser \<Rightarrow> DirectiveParser" where
  "handle c s = s\<lparr>mDirectiveHandler := mDirectiveHandler s @ [c]\<rparr>"

datatype DirectiveType =
    DIRECTIVE_NONE
  | DIRECTIVE_DEFINE
  | DIRECTIVE_UNDEF
  | DIRECTIVE_IF
  | DIRECTIVE_IFDEF
  | DIRECTIVE_IFNDEF
  | DIRECTIVE_ELSE
  | DIRECTIVE_ELIF
  | DIRECTIVE_ENDIF
  | DIRECTIVE_ERROR
  | DIRECTIVE_PRAGMA
  | DIRECTIVE_EXTENSION
  | DIRECTIVE_VERSION
  | DIRECTIVE_LINE

definition getDirective :: "Token \<Rightarrow> DirectiveType" where
  "getDirective token =
     (if token_type token \<noteq> IDENTIFIER then DIRECTIVE_NONE
      else if token_text token = ''define'' then DIRECTIVE_DEFINE
      else if token_text token = ''undef'' then DIRECTIVE_UNDEF
      else if token_text token = ''if'' then DIRECTIVE_IF
      else if token_text token = ''ifdef'' then DIRECTIVE_IFDEF
      else if token_text token = ''ifndef'' then DIRECTIVE_IFNDEF
      else if token_text token = ''else'' then DIRECTIVE_ELSE
      else if token_text token = ''elif'' then DIRECTIVE_ELIF
      else if token_text token = ''endif'' then DIRECTIVE_ENDIF
      else if token_text token = ''error'' then DIRECTIVE_ERROR
      else if token_text token = ''pragma'' then DIRECTIVE_PRAGMA
      else if token_text token = ''extension'' then DIRECTIVE_EXTENSION
      else if token_text token = ''version'' then DIRECTIVE_VERSION
      else if token_text token = ''line'' then DIRECTIVE_LINE
      else DIRECTIVE_NONE)"

fun isConditionalDirective :: "DirectiveType \<Rightarrow> bool" where
  "isConditionalDirective DIRECTIVE_IF = True"
| "isConditionalDirective DIRECTIVE_IFDEF = True"
| "isConditionalDirective DIRECTIVE_IFNDEF = True"
| "isConditionalDirective DIRECTIVE_ELSE = True"
| "isConditionalDirective DIRECTIVE_ELIF = True"
| "isConditionalDirective DIRECTIVE_ENDIF = True"
| "isConditionalDirective _ = False"

definition isEOD :: "Token \<Rightarrow> bool" where
  "isEOD token = (token_type token = Punctuator newline \<or> token_type token = LAST)"

function skipUntilEOD :: "Token \<Rightarrow> DirectiveParser \<Rightarrow> Token \<times> DirectiveParser" where
  "skipUntilEOD token s =
     (if \<not> isEOD token then (case Tokenizer_lex s of (token', s') \<Rightarrow> skipUntilEOD token' s')
      else (token, s))"
  by pat_completeness auto
termination
  by (relation "measure (\<lambda>(token, s). length (mTokenizer s) + (if isEOD token then 0 else 1))")
     (auto simp: Tokenizer_lex_def isEOD_def eofToken_def split: list.splits)

definition isMacroNameReserved :: "string \<Rightarrow> bool" where
  "isMacroNameReserved name = (take 3 name = ''GL_'')"

fun hasDoubleUnderscores :: "string \<Rightarrow> bool" where
  "hasDoubleUnderscores (a # b # cs) =
     ((a = CHR ''_'' \<and> b = CHR ''_'') \<or> hasDoubleUnderscores (b # cs))"
| "hasDoubleUnderscores _ = False"

definition isMacroPredefined :: "string \<Rightarrow> MacroSet \<Rightarrow> bool" where
  "isMacroPredefined name macroSet =
     (case macroSet name of Some m \<Rightarrow> predefined m | None \<Rightarrow> False)"

definition skipping :: "DirectiveParser \<Rightarrow> bool" where
  "skipping s =
     (if mConditionalStack s = [] then False
      else let block = last (mConditionalStack s) in skipBlock block \<or> skipGroup block)"


text \<open>The effect of a run of the expression parser or macro expander on the state.\<close>

definition applyParsed :: "Parsed \<Rightarrow> DirectiveParser \<Rightarrow> DirectiveParser" where
  "applyParsed r s =
     s\<lparr>mTokenizer := drop (parsed_consumed r) (mTokenizer s),
       mDiagnostics := mDiagnostics s @ parsed_reports r\<rparr>"

text \<open>
  Modelled from the spec: \<^verbatim>\<open>Macro::equals\<close> (redefinition is allowed only if the new body
  equals the old token-for-token) and \<^verbatim>\<open>PredefineMacro\<close> (a predefined object-like macro
  whose replacement is the number).
\<close>

definition Macro_equals :: "Macro \<Rightarrow> Macro \<Rightarrow> bool" where
  "Macro_equals a b =
     (macro_type a = macro_type b \<and> macro_name a = macro_name b \<and>
      parameters a = parameters b \<and> replacements a = replacements b)"

definition PredefineMacro :: "Externals \<Rightarrow> MacroSet \<Rightarrow> string \<Rightarrow> int \<Rightarrow> MacroSet" where
  "PredefineMacro ext macroSet name val =
     macroSet(name \<mapsto>
       \<lparr>predefined = True, expansionCount = 0, macro_type = kTypeObj, macro_name = name,
        parameters = [],
        replacements = [\<lparr>token_type = CONST_INT, hasLeadingSpace = False,
                         location = SourceLocation_default,
                         token_text = to_string ext val\<rparr>]\<rparr>)"

subsection \<open>The directives define and undef\<close>

text \<open>
  The \<^verbatim>\<open>do ... while(token->type == ',')\<close> loop of \<^verbatim>\<open>parseDefine\<close> that collects
  the parameters; \<open>DuplicateParameter\<close> is its \<^verbatim>\<open>return\<close> after the report of
  \<open>PP_MACRO_DUPLICATE_PARAMETER_NAMES\<close>.
\<close>

datatype ParameterList = DuplicateParameter | ParametersDone

function parseDefine_parameters ::
  "string list \<Rightarrow> DirectiveParser \<Rightarrow> ParameterList \<times> string list \<times> Token \<times> DirectiveParser" where
  "parseDefine_parameters params s =
     (case Tokenizer_lex s of (token, s1) \<Rightarrow>
        if token_type token \<noteq> IDENTIFIER then (ParametersDone, params, token, s1)
        else if token_text token \<in> set params then
          (DuplicateParameter, params, token,
           report PP_MACRO_DUPLICATE_PARAMETER_NAMES (location token) (token_text token) s1)
        else
          (case Tokenizer_lex s1 of (token2, s2) \<Rightarrow>
             if token_type token2 = Punctuator (CHR '','')
             then parseDefine_parameters (params @ [token_text token]) s2
             else (ParametersDone, params @ [token_text token], token2, s2)))"
  by pat_completeness auto
termination
  by (relation "measure (\<lambda>(params, s). length (mTokenizer s))")
     (auto simp: Tokenizer_lex_def eofToken_def split: list.splits)

text \<open>The loop of \<^verbatim>\<open>parseDefine\<close> that collects the replacement list.\<close>

function parseDefine_replacements ::
  "Token list \<Rightarrow> Token \<Rightarrow> DirectiveParser \<Rightarrow> Token list \<times> Token \<times> DirectiveParser" where
  "parseDefine_replacements repl token s =
     (if token_type token \<noteq> Punctuator newline \<and> token_type token \<noteq> LAST then
        (case Tokenizer_lex s of (token', s') \<Rightarrow>
           parseDefine_replacements (repl @ [token\<lparr>location := SourceLocation_default\<rparr>]) token' s')
      else (repl, token, s))"
  by pat_completeness auto
termination
  by (relation "measure (\<lambda>(repl, token, s). length (mTokenizer s) + (if isEOD token then 0 else 1))")
     (auto simp: Tokenizer_lex_def isEOD_def eofToken_def split: list.splits)

text \<open>
  \<^verbatim>\<open>DirectiveParser::parseDefine\<close>. \<open>finish\<close> is the part after the parameter list:
  the replacement list, the check for a redefinition and
  \<^verbatim>\<open>mMacroSet->insert\<close>, which leaves an existing entry as it is.
\<close>

definition parseDefine :: "Token \<Rightarrow> DirectiveParser \<Rightarrow> Token \<times> DirectiveParser" where
  "parseDefine token0 s0 =
     (case Tokenizer_lex s0 of (token, s) \<Rightarrow>
      if token_type token \<noteq> IDENTIFIER then
        (token, report PP_UNEXPECTED_TOKEN (location token) (token_text token) s)
      else if isMacroPredefined (token_text token) (mMacroSet s) then
        (token, report PP_MACRO_PREDEFINED_REDEFINED (location token) (token_text token) s)
      else if isMacroNameReserved (token_text token) then
        (token, report PP_MACRO_NAME_RESERVED (location token) (token_text token) s)
      else
        (let s1 = (if hasDoubleUnderscores (token_text token)
                   then report PP_WARNING_MACRO_NAME_RESERVED (location token) (token_text token) s
                   else s);
             macro = \<lparr>predefined = False, expansionCount = 0, macro_type = kTypeObj,
                      macro_name = token_text token, parameters = [], replacements = []\<rparr>;
             finish = (\<lambda>macro token s.
               case parseDefine_replacements [] token s of (repl, token', s') \<Rightarrow>
                 (let repl' = (case repl of [] \<Rightarrow> []
                               | r # rs \<Rightarrow> r\<lparr>hasLeadingSpace := False\<rparr> # rs);
                      macro' = macro\<lparr>replacements := repl'\<rparr>
                  in case mMacroSet s' (macro_name macro') of
                       Some old \<Rightarrow>
                         if \<not> Macro_equals macro' old
                         then (token', report PP_MACRO_REDEFINED (location token') (macro_name macro') s')
                         else (token', s')
                     | None \<Rightarrow>
                         (token', s'\<lparr>mMacroSet := (mMacroSet s')(macro_name macro' \<mapsto> macro')\<rparr>)))
         in case Tokenizer_lex s1 of (token2, s2) \<Rightarrow>
            if token_type token2 = Punctuator (CHR ''('') \<and> \<not> hasLeadingSpace token2 then
              (case parseDefine_parameters [] s2 of
                 (DuplicateParameter, params, token3, s3) \<Rightarrow> (token3, s3)
               | (ParametersDone, params, token3, s3) \<Rightarrow>
                   if token_type token3 \<noteq> Punctuator (CHR '')'') then
                     (token3, report PP_UNEXPECTED_TOKEN (location token3) (token_text token3) s3)
                   else
                     (case Tokenizer_lex s3 of (token4, s4) \<Rightarrow>
                        finish (macro\<lparr>macro_type := kTypeFunc, parameters := params\<rparr>) token4 s4))
            else finish macro token2 s2))"

text \<open>\<^verbatim>\<open>DirectiveParser::parseUndef\<close>; \<open>rest\<close> is the part after the table lookup.\<close>

definition parseUndef :: "Token \<Rightarrow> DirectiveParser \<Rightarrow> Token \<times> DirectiveParser" where
  "parseUndef token0 s0 =
     (case Tokenizer_lex s0 of (token, s) \<Rightarrow>
      if token_type token \<noteq> IDENTIFIER then
        (token, report PP_UNEXPECTED_TOKEN (location token) (token_text token) s)
      else
        (let rest = (\<lambda>s. case Tokenizer_lex s of (token', s') \<Rightarrow>
               if \<not> isEOD token'
               then skipUntilEOD token'
                      (report PP_UNEXPECTED_TOKEN (location token') (token_text token') s')
               else (token', s'))
         in case mMacroSet s (token_text token) of
              Some m \<Rightarrow>
                if predefined m then
                  (token, report PP_MACRO_PREDEFINED_UNDEFINED (location token) (token_text token) s)
                else if expansionCount m > 0 then
                  (token, report PP_MACRO_UNDEFINED_WHILE_INVOKED (location token) (token_text token) s)
                else rest (s\<lparr>mMacroSet := (mMacroSet s)(token_text token := None)\<rparr>)
            | None \<Rightarrow> rest s))"

subsection \<open>Conditionals\<close>

definition parseExpressionIf ::
  "Externals \<Rightarrow> Token \<Rightarrow> DirectiveParser \<Rightarrow> int \<times> Token \<times> DirectiveParser" where
  "parseExpressionIf ext token s =
     (let r = expressionParser_parse ext IfExpression (mMacroSet s) token (mTokenizer s);
          s1 = (applyParsed r s)\<lparr>mExpressionParser := mExpressionParser s @ [IfExpression]\<rparr>;
          token1 = parsed_token r
      in if \<not> isEOD token1 then
           (case skipUntilEOD token1
                   (report PP_CONDITIONAL_UNEXPECTED_TOKEN (location token1) (token_text token1) s1)
            of (token2, s2) \<Rightarrow> (parsed_value r, token2, s2))
         else (parsed_value r, token1, s1))"

definition parseExpressionIfdef :: "Token \<Rightarrow> DirectiveParser \<Rightarrow> int \<times> Token \<times> DirectiveParser" where
  "parseExpressionIfdef token0 s0 =
     (case Tokenizer_lex s0 of (token, s) \<Rightarrow>
      if token_type token \<noteq> IDENTIFIER then
        (case skipUntilEOD token (report PP_UNEXPECTED_TOKEN (location token) (token_text token) s)
         of (token', s') \<Rightarrow> (0, token', s'))
      else
        (let expression = (if mMacroSet s (token_text token) \<noteq> None then 1 else 0) in
         case Tokenizer_lex s of (token1, s1) \<Rightarrow>
           if \<not> isEOD token1 then
             (case skipUntilEOD token1
                     (report PP_CONDITIONAL_UNEXPECTED_TOKEN (location token1) (token_text token1) s1)
              of (token2, s2) \<Rightarrow> (expression, token2, s2))
           else (expression, token1, s1)))"

definition parseConditionalIf ::
  "Externals \<Rightarrow> Token \<Rightarrow> DirectiveParser \<Rightarrow> Token \<times> DirectiveParser" where
  "parseConditionalIf ext token s =
     (let block = ConditionalBlock_default
                    \<lparr>block_type := token_text token, block_location := location token\<rparr>
      in if skipping s then
           (case skipUntilEOD token s of (token', s') \<Rightarrow>
              (token', s'\<lparr>mConditionalStack :=
                           mConditionalStack s' @ [block\<lparr>skipBlock := True\<rparr>]\<rparr>))
         else
           (case (case getDirective token of
                    DIRECTIVE_IF \<Rightarrow> parseExpressionIf ext token s
                  | DIRECTIVE_IFDEF \<Rightarrow> parseExpressionIfdef token s
                  | DIRECTIVE_IFNDEF \<Rightarrow>
                      (case parseExpressionIfdef token s of (e, t, s') \<Rightarrow>
                         ((if e = 0 then 1 else 0), t, s'))
                  | _ \<Rightarrow> (0, token, s))
            of (expression, token', s') \<Rightarrow>
              (token', s'\<lparr>mConditionalStack :=
                           mConditionalStack s' @
                             [block\<lparr>skipGroup := (expression = 0),
                                    foundValidGroup := (expression \<noteq> 0)\<rparr>]\<rparr>)))"

text \<open>\<open>setBack f\<close> writes through the reference \<^verbatim>\<open>mConditionalStack.back()\<close>.\<close>

definition setBack :: "(ConditionalBlock \<Rightarrow> ConditionalBlock) \<Rightarrow> DirectiveParser \<Rightarrow> DirectiveParser" where
  "setBack f s =
     s\<lparr>mConditionalStack := butlast (mConditionalStack s) @ [f (last (mConditionalStack s))]\<rparr>"

definition parseElse :: "Token \<Rightarrow> DirectiveParser \<Rightarrow> Token \<times> DirectiveParser" where
  "parseElse token s =
     (if mConditionalStack s = [] then
        skipUntilEOD token
          (report PP_CONDITIONAL_ELSE_WITHOUT_IF (location token) (token_text token) s)
      else
        (let block = last (mConditionalStack s) in
         if skipBlock block then skipUntilEOD token s
         else if foundElseGroup block then
           skipUntilEOD token
             (report PP_CONDITIONAL_ELSE_AFTER_ELSE (location token) (token_text token) s)
         else
           (let s1 = setBack (\<lambda>b. b\<lparr>foundElseGroup := True, skipGroup := foundValidGroup b,
                                      foundValidGroup := True\<rparr>) s
            in case Tokenizer_lex s1 of (token1, s2) \<Rightarrow>
                 if \<not> isEOD token1 then
                   skipUntilEOD token1
                     (report PP_CONDITIONAL_UNEXPECTED_TOKEN (location token1) (token_text token1) s2)
                 else (token1, s2))))"

definition parseElif :: "Externals \<Rightarrow> Token \<Rightarrow> DirectiveParser \<Rightarrow> Token \<times> DirectiveParser" where
  "parseElif ext token s =
     (if mConditionalStack s = [] then
        skipUntilEOD token
          (report PP_CONDITIONAL_ELIF_WITHOUT_IF (location token) (token_text token) s)
      else
        (let block = last (mConditionalStack s) in
         if skipBlock block then skipUntilEOD token s
         else if foundElseGroup block then
           skipUntilEOD token
             (report PP_CONDITIONAL_ELIF_AFTER_ELSE (location token) (token_text token) s)
         else if foundValidGroup block then
           skipUntilEOD token (setBack (\<lambda>b. b\<lparr>skipGroup := True\<rparr>) s)
         else
           (case parseExpressionIf ext token s of (expression, token', s') \<Rightarrow>
              (token', setBack (\<lambda>b. b\<lparr>skipGroup := (expression = 0),
                                        foundValidGroup := (expression \<noteq> 0)\<rparr>) s'))))"

definition parseEndif :: "Token \<Rightarrow> DirectiveParser \<Rightarrow> Token \<times> DirectiveParser" where
  "parseEndif token s =
     (if mConditionalStack s = [] then
        skipUntilEOD token
          (report PP_CONDITIONAL_ENDIF_WITHOUT_IF (location token) (token_text token) s)
      else
        (let s1 = s\<lparr>mConditionalStack := butlast (mConditionalStack s)\<rparr> in
         case Tokenizer_lex s1 of (token1, s2) \<Rightarrow>
           if \<not> isEOD token1 then
             skipUntilEOD token1
               (report PP_CONDITIONAL_UNEXPECTED_TOKEN (location token1) (token_text token1) s2)
           else (token1, s2)))"


subsection \<open>error, pragma, extension\<close>

text \<open>
  Modelled from the spec: printing a token to a stream (\<^verbatim>\<open>Token.cpp\<close> is not among the
  sources): a space if the token has leading space, then its text.
\<close>

definition Token_print :: "Token \<Rightarrow> string" where
  "Token_print token = (if hasLeadingSpace token then '' '' else []) @ token_text token"

function parseError_loop :: "string \<Rightarrow> Token \<Rightarrow> DirectiveParser \<Rightarrow> string \<times> Token \<times> DirectiveParser" where
  "parseError_loop stream token s =
     (if token_type token \<noteq> Punctuator newline \<and> token_type token \<noteq> LAST then
        (case Tokenizer_lex s of (token', s') \<Rightarrow>
           parseError_loop (stream @ Token_print token) token' s')
      else (stream, token, s))"
  by pat_completeness auto
termination
  by (relation "measure (\<lambda>(stream, token, s). length (mTokenizer s) + (if isEOD token then 0 else 1))")
     (auto simp: Tokenizer_lex_def isEOD_def eofToken_def split: list.splits)

definition parseError :: "Token \<Rightarrow> DirectiveParser \<Rightarrow> Token \<times> DirectiveParser" where
  "parseError token0 s0 =
     (case Tokenizer_lex s0 of (token, s) \<Rightarrow>
      case parseError_loop [] token s of (stream, token', s') \<Rightarrow>
        (token', handle (handleError (location token') stream) s'))"

text \<open>The states of the pragma parser: PRAGMA_NAME = 0, LEFT_PAREN = 1, PRAGMA_VALUE = 2,
  RIGHT_PAREN = 3.\<close>

definition parsePragma_switch ::
  "bool \<Rightarrow> string \<Rightarrow> string \<Rightarrow> nat \<Rightarrow> Token \<Rightarrow> bool \<times> string \<times> string" where
  "parsePragma_switch valid name val state token =
     (if state = 0 then (valid \<and> token_type token = IDENTIFIER, token_text token, val)
      else if state = 1 then (valid \<and> token_type token = Punctuator (CHR ''(''), name, val)
      else if state = 2 then (valid \<and> token_type token = IDENTIFIER, name, token_text token)
      else if state = 3 then (valid \<and> token_type token = Punctuator (CHR '')''), name, val)
      else (False, name, val))"

function parsePragma_loop ::
  "bool \<Rightarrow> string \<Rightarrow> string \<Rightarrow> nat \<Rightarrow> Token \<Rightarrow> DirectiveParser
    \<Rightarrow> bool \<times> string \<times> string \<times> nat \<times> Token \<times> DirectiveParser" where
  "parsePragma_loop valid name val state token s =
     (if token_type token \<noteq> Punctuator newline \<and> token_type token \<noteq> LAST then
        (case parsePragma_switch valid name val state token of (valid', name', val') \<Rightarrow>
         case Tokenizer_lex s of (token', s') \<Rightarrow>
           parsePragma_loop valid' name' val' (state + 1) token' s')
      else (valid, name, val, state, token, s))"
  by pat_completeness auto
termination
  by (relation "measure (\<lambda>(valid, name, val, state, token, s).
          length (mTokenizer s) + (if isEOD token then 0 else 1))")
     (auto simp: Tokenizer_lex_def isEOD_def eofToken_def split: list.splits)

definition parsePragma :: "Token \<Rightarrow> DirectiveParser \<Rightarrow> Token \<times> DirectiveParser" where
  "parsePragma token0 s0 =
     (case Tokenizer_lex s0 of (token1, s1) \<Rightarrow>
      let stdgl = (token_text token1 = ''STDGL'') in
      case (if stdgl then Tokenizer_lex s1 else (token1, s1)) of (token2, s2) \<Rightarrow>
      case parsePragma_loop True [] [] 0 token2 s2 of (valid, name, val, state, token, s) \<Rightarrow>
        (let valid' = (valid \<and> (state = 0 \<or> state = 1 \<or> state = 3 + 1)) in
         if \<not> valid' then (token, report PP_UNRECOGNIZED_PRAGMA (location token) name s)
         else if state > 0 then (token, handle (handlePragma (location token) name val stdgl) s)
         else (token, s)))"

text \<open>The states of the extension parser: EXT_NAME = 0, COLON = 1, EXT_BEHAVIOR = 2.\<close>

definition parseExtension_switch ::
  "bool \<Rightarrow> string \<Rightarrow> string \<Rightarrow> nat \<Rightarrow> Token \<Rightarrow> DirectiveParser
    \<Rightarrow> bool \<times> string \<times> string \<times> DirectiveParser" where
  "parseExtension_switch valid name behavior state token s =
     (if state = 0 then
        (if valid \<and> token_type token \<noteq> IDENTIFIER
         then (False, name, behavior,
               report PP_INVALID_EXTENSION_NAME (location token) (token_text token) s)
         else if valid then (valid, token_text token, behavior, s)
         else (valid, name, behavior, s))
      else if state = 1 then
        (if valid \<and> token_type token \<noteq> Punctuator (CHR '':'')
         then (False, name, behavior,
               report PP_UNEXPECTED_TOKEN (location token) (token_text token) s)
         else (valid, name, behavior, s))
      else if state = 2 then
        (if valid \<and> token_type token \<noteq> IDENTIFIER
         then (False, name, behavior,
               report PP_INVALID_EXTENSION_BEHAVIOR (location token) (token_text token) s)
         else if valid then (valid, name, token_text token, s)
         else (valid, name, behavior, s))
      else
        (if valid
         then (False, name, behavior,
               report PP_UNEXPECTED_TOKEN (location token) (token_text token) s)
         else (valid, name, behavior, s)))"

function parseExtension_loop ::
  "bool \<Rightarrow> string \<Rightarrow> string \<Rightarrow> nat \<Rightarrow> Token \<Rightarrow> DirectiveParser
    \<Rightarrow> bool \<times> string \<times> string \<times> nat \<times> Token \<times> DirectiveParser" where
  "parseExtension_loop valid name behavior state token s =
     (if token_type token \<noteq> Punctuator newline \<and> token_type token \<noteq> LAST then
        (case parseExtension_switch valid name behavior state token s of
           (valid', name', behavior', s1) \<Rightarrow>
         case Tokenizer_lex s1 of (token', s') \<Rightarrow>
           parseExtension_loop valid' name' behavior' (state + 1) token' s')
      else (valid, name, behavior, state, token, s))"
  by pat_completeness auto
termination
  by (relation "measure (\<lambda>(valid, name, behavior, state, token, s).
          length (mTokenizer s) + (if isEOD token then 0 else 1))")
     (auto simp: Tokenizer_lex_def isEOD_def eofToken_def report_def parseExtension_switch_def
           split: list.splits if_splits)

definition parseExtension :: "Token \<Rightarrow> DirectiveParser \<Rightarrow> Token \<times> DirectiveParser" where
  "parseExtension token0 s0 =
     (case Tokenizer_lex s0 of (token1, s1) \<Rightarrow>
      case parseExtension_loop True [] [] 0 token1 s1 of
        (valid, name, behavior, state, token, s) \<Rightarrow>
        (let (valid2, s2) =
               (if valid \<and> state \<noteq> 2 + 1
                then (False, report PP_INVALID_EXTENSION_DIRECTIVE (location token) (token_text token) s)
                else (valid, s));
             (valid3, s3) =
               (if valid2 \<and> mSeenNonPreprocessorToken s2 then
                  (if mShaderVersion s2 \<ge> 300
                   then (False, report PP_NON_PP_TOKEN_BEFORE_EXTENSION_ESSL3
                                  (location token) (token_text token) s2)
                   else (valid2, report PP_NON_PP_TOKEN_BEFORE_EXTENSION_ESSL1
                                   (location token) (token_text token) s2))
                else (valid2, s2))
         in if valid3 then (token, handle (handleExtension (location token) name behavior) s3)
            else (token, s3)))"

subsection \<open>version, line\<close>

datatype VersionState = VERSION_NUMBER | VERSION_PROFILE | VERSION_ENDLINE

definition parseVersion_switch ::
  "Externals \<Rightarrow> bool \<Rightarrow> int \<Rightarrow> VersionState \<Rightarrow> Token \<Rightarrow> DirectiveParser
    \<Rightarrow> bool \<times> int \<times> VersionState \<times> DirectiveParser" where
  "parseVersion_switch ext valid version state token s =
     (case state of
        VERSION_NUMBER \<Rightarrow>
          (let (valid1, s1) =
                 (if token_type token \<noteq> CONST_INT
                  then (False, report PP_INVALID_VERSION_NUMBER
                                 (location token) (token_text token) s)
                  else (valid, s));
               (valid2, version2, s2) =
                 (if valid1 then
                    (case iValue ext (token_text token) of
                       None \<Rightarrow> (False, version,
                                  report PP_INTEGER_OVERFLOW (location token) (token_text token) s1)
                     | Some v \<Rightarrow> (valid1, v, s1))
                  else (valid1, version, s1))
           in (valid2, version2,
               (if valid2
                then (if version2 < 300 then VERSION_ENDLINE else VERSION_PROFILE)
                else state),
               s2))
      | VERSION_PROFILE \<Rightarrow>
          (if token_type token \<noteq> IDENTIFIER \<or> token_text token \<noteq> ''es''
           then (False, version, VERSION_ENDLINE,
                 report PP_INVALID_VERSION_DIRECTIVE (location token) (token_text token) s)
           else (valid, version, VERSION_ENDLINE, s))
      | VERSION_ENDLINE \<Rightarrow>
          (False, version, state,
           report PP_UNEXPECTED_TOKEN (location token) (token_text token) s))"

function parseVersion_loop ::
  "Externals \<Rightarrow> bool \<Rightarrow> int \<Rightarrow> VersionState \<Rightarrow> Token \<Rightarrow> DirectiveParser
    \<Rightarrow> bool \<times> int \<times> VersionState \<times> Token \<times> DirectiveParser" where
  "parseVersion_loop ext valid version state token s =
     (if valid \<and> token_type token \<noteq> Punctuator newline \<and> token_type token \<noteq> LAST then
        (case parseVersion_switch ext valid version state token s of
           (valid', version', state', s1) \<Rightarrow>
         case Tokenizer_lex s1 of (token', s') \<Rightarrow>
           parseVersion_loop ext valid' version' state' token' s')
      else (valid, version, state, token, s))"
  by pat_completeness auto
termination
  by (relation "measure (\<lambda>(ext, valid, version, state, token, s).
          length (mTokenizer s) + (if isEOD token then 0 else 1))")
     (auto simp: Tokenizer_lex_def isEOD_def eofToken_def report_def Let_def
           parseVersion_switch_def
           split: list.splits if_splits VersionState.splits option.splits prod.splits)

definition parseVersion :: "Externals \<Rightarrow> Token \<Rightarrow> DirectiveParser \<Rightarrow> Token \<times> DirectiveParser" where
  "parseVersion ext token0 s0 =
     (if mPastFirstStatement s0 then
        skipUntilEOD token0
          (report PP_VERSION_NOT_FIRST_STATEMENT (location token0) (token_text token0) s0)
      else
        (case Tokenizer_lex s0 of (token1, s1) \<Rightarrow>
         case parseVersion_loop ext True 0 VERSION_NUMBER token1 s1 of
           (valid, version, state, token, s) \<Rightarrow>
           (let (valid2, s2) =
                  (if valid \<and> state \<noteq> VERSION_ENDLINE
                   then (False, report PP_INVALID_VERSION_DIRECTIVE
                                  (location token) (token_text token) s)
                   else (valid, s));
                (valid3, s3) =
                  (if valid2 \<and> version \<ge> 300 \<and> loc_line (location token) > 1
                   then (False, report PP_VERSION_NOT_FIRST_LINE_ESSL3
                                  (location token) (token_text token) s2)
                   else (valid2, s2))
            in if valid3 then
                 (token, (handle (handleVersion (location token) version) s3)
                            \<lparr>mShaderVersion := version,
                             mMacroSet := PredefineMacro ext (mMacroSet s3) ''__VERSION__'' version\<rparr>)
               else (token, s3))))"

definition parseLine :: "Externals \<Rightarrow> Token \<Rightarrow> DirectiveParser \<Rightarrow> Token \<times> DirectiveParser" where
  "parseLine ext token0 s0 =
     (let r0 = macroExpander_lex ext (mMacroSet s0) (mTokenizer s0);
          s1 = applyParsed r0 s0;
          token1 = parsed_token r0;
          (valid, parsedFileNumber, ln, fl, token, s) =
            (if isEOD token1 then
               (False, False, 0, 0, token1,
                report PP_INVALID_LINE_DIRECTIVE (location token1) (token_text token1) s1)
             else
               (let r1 = expressionParser_parse ext LineNumber (mMacroSet s1) token1 (mTokenizer s1);
                    s2 = (applyParsed r1 s1)\<lparr>mExpressionParser := mExpressionParser s1 @ [LineNumber]\<rparr>;
                    token2 = parsed_token r1;
                    (valid3, parsed3, fl3, token3, s3) =
                      (if \<not> isEOD token2 \<and> parsed_valid r1 then
                         (let r2 = expressionParser_parse ext FileNumber (mMacroSet s2) token2 (mTokenizer s2)
                          in (parsed_valid r2, True, parsed_value r2, parsed_token r2,
                              (applyParsed r2 s2)
                                \<lparr>mExpressionParser := mExpressionParser s2 @ [FileNumber]\<rparr>))
                       else (parsed_valid r1, False, 0, token2, s2))
                in if \<not> isEOD token3 then
                     (let s4 = (if valid3
                                then report PP_UNEXPECTED_TOKEN (location token3) (token_text token3) s3
                                else s3)
                      in case skipUntilEOD token3 s4 of (token5, s5) \<Rightarrow>
                           (False, parsed3, parsed_value r1, fl3, token5, s5))
                   else (valid3, parsed3, parsed_value r1, fl3, token3, s3)))
      in if valid then
           (token, s\<lparr>mTokenizerCalls := mTokenizerCalls s @
                        (setLineNumber ln # (if parsedFileNumber then [setFileNumber fl] else []))\<rparr>)
         else (token, s))"

subsection \<open>parseDirective and lex\<close>

definition parseDirective :: "Externals \<Rightarrow> Token \<Rightarrow> DirectiveParser \<Rightarrow> Token \<times> DirectiveParser" where
  "parseDirective ext token0 s0 =
     (case Tokenizer_lex s0 of (token, s) \<Rightarrow>
      if isEOD token then (token, s)
      else
        (let directive = getDirective token in
         if skipping s \<and> \<not> isConditionalDirective directive then skipUntilEOD token s
         else
           (case (case directive of
                    DIRECTIVE_NONE \<Rightarrow>
                      skipUntilEOD token
                        (report PP_DIRECTIVE_INVALID_NAME (location token) (token_text token) s)
                  | DIRECTIVE_DEFINE \<Rightarrow> parseDefine token s
                  | DIRECTIVE_UNDEF \<Rightarrow> parseUndef token s
                  | DIRECTIVE_IF \<Rightarrow> parseConditionalIf ext token s
                  | DIRECTIVE_IFDEF \<Rightarrow> parseConditionalIf ext token s
                  | DIRECTIVE_IFNDEF \<Rightarrow> parseConditionalIf ext token s
                  | DIRECTIVE_ELSE \<Rightarrow> parseElse token s
                  | DIRECTIVE_ELIF \<Rightarrow> parseElif ext token s
                  | DIRECTIVE_ENDIF \<Rightarrow> parseEndif token s
                  | DIRECTIVE_ERROR \<Rightarrow> parseError token s
                  | DIRECTIVE_PRAGMA \<Rightarrow> parsePragma token s
                  | DIRECTIVE_EXTENSION \<Rightarrow> parseExtension token s
                  | DIRECTIVE_VERSION \<Rightarrow> parseVersion ext token s
                  | DIRECTIVE_LINE \<Rightarrow> parseLine ext token s)
            of (token1, s1) \<Rightarrow>
              (case skipUntilEOD token1 s1 of (token2, s2) \<Rightarrow>
                 if token_type token2 = LAST
                 then (token2, report PP_EOF_IN_DIRECTIVE (location token2) (token_text token2) s2)
                 else (token2, s2)))))"

text \<open>
  The body of the \<^verbatim>\<open>do ... while\<close> loop of \<^verbatim>\<open>DirectiveParser::lex\<close>, up to and
  including the report made when the token is \<open>LAST\<close>.
\<close>

definition lex_body :: "Externals \<Rightarrow> DirectiveParser \<Rightarrow> Token \<times> DirectiveParser" where
  "lex_body ext s0 =
     (case Tokenizer_lex s0 of (token, s) \<Rightarrow>
      case (if token_type token = PP_HASH then
              (case parseDirective ext token s of (token', s') \<Rightarrow>
                 (token', s'\<lparr>mPastFirstStatement := True\<rparr>))
            else if \<not> isEOD token then (token, s\<lparr>mSeenNonPreprocessorToken := True\<rparr>)
            else (token, s))
      of (token1, s1) \<Rightarrow>
        if token_type token1 = LAST then
          (token1,
           (if mConditionalStack s1 \<noteq> [] then
              (let block = last (mConditionalStack s1)
               in report PP_CONDITIONAL_UNTERMINATED (block_location block) (block_type block) s1)
            else s1))
        else (token1, s1))"

subsection \<open>Shapes of token streams\<close>








definition separated :: "(Token \<times> Token) list \<Rightarrow> Token list" where
  "separated pcs = concat (map (\<lambda>(p, c). [p, c]) pcs)"

definition parameterNames :: "(Token \<times> Token) list \<Rightarrow> string list" where
  "parameterNames pcs = map (\<lambda>(p, c). token_text p) pcs"

definition wellSeparated :: "(Token \<times> Token) list \<Rightarrow> bool" where
  "wellSeparated pcs =
     list_all (\<lambda>(p, c). token_type p = IDENTIFIER \<and> token_type c = Punctuator (CHR '','')) pcs"

subsection \<open>Conditional blocks over the rounds of lex\<close>


text \<open>
  \<open>blockOpen ext k s t\<close>: the parser gets from \<open>s\<close> to \<open>t\<close> by rounds of the loop
  of \<open>lex\<close> (each round reads one token or one directive) and returns of \<open>lex\<close>, and
  the stack has more than \<open>k\<close> blocks in \<open>s\<close> and after every round. A round pushes
  or pops at most one block, so the block at position \<open>k\<close> of the stack is the same
  conditional block from \<open>s\<close> to \<open>t\<close>: it has not been closed.
\<close>

inductive blockOpen ::
  "Externals \<Rightarrow> nat \<Rightarrow> DirectiveParser \<Rightarrow> DirectiveParser \<Rightarrow> bool"
  for ext :: Externals and k :: nat
where
  start: "k < length (mConditionalStack s) \<Longrightarrow> blockOpen ext k s s"
| round: "blockOpen ext k s t \<Longrightarrow> k < length (mConditionalStack (snd (lex_body ext t)))
    \<Longrightarrow> blockOpen ext k s (snd (lex_body ext t))"
| return: "blockOpen ext k s t \<Longrightarrow> blockOpen ext k s (t\<lparr>mPastFirstStatement := True\<rparr>)"

text \<open>
  \<open>stackStep st st'\<close>: what one directive does to the conditional stack. It leaves it
  as it is, or pushes a block, or pops the back block, or rewrites the back block, keeping
  its \<open>skipBlock\<close> and not resetting a \<open>foundValidGroup\<close> or \<open>foundElseGroup\<close>
  that is set.
\<close>

definition stackStep :: "ConditionalBlock list \<Rightarrow> ConditionalBlock list \<Rightarrow> bool" where
  "stackStep st st' =
     (st' = st \<or> (\<exists>b. st' = st @ [b])
      \<or> (st \<noteq> []
          \<and> (st' = butlast st
              \<or> (\<exists>b. st' = butlast st @ [b] \<and> skipBlock b = skipBlock (last st)
                    \<and> (foundValidGroup (last st) \<longrightarrow> foundValidGroup b)
                    \<and> (foundElseGroup (last st) \<longrightarrow> foundElseGroup b)))))"

subsection \<open>Example inputs\<close>

text \<open>
  A token without leading space in file 0, on the given line; externals that read decimal
  \<open>100\<close> and \<open>300\<close> and parse every expression as one token of value 0; and the
  token streams of some sources.
\<close>

definition tok :: "TokenType \<Rightarrow> string \<Rightarrow> int \<Rightarrow> Token" where
  "tok ty txt ln = \<lparr>token_type = ty, hasLeadingSpace = False,
                    location = \<lparr>loc_file = 0, loc_line = ln\<rparr>, token_text = txt\<rparr>"



definition punct :: "char \<Rightarrow> int \<Rightarrow> Token" where
  "punct c ln = tok (Punctuator c) [c] ln"

definition macroA :: Macro where
  "macroA = \<lparr>predefined = False, expansionCount = 0, macro_type = kTypeObj,
             macro_name = ''A'', parameters = [], replacements = []\<rparr>"

text \<open>The tokens after \<^verbatim>\<open>#undef\<close> in \<^verbatim>\<open>#undef A\<close>, with \<open>A\<close> defined.\<close>

definition undef_state :: DirectiveParser where
  "undef_state =
     DirectiveParser_ctor [tok IDENTIFIER ''A'' 3, punct newline 3] [''A'' \<mapsto> macroA] 100"

text \<open>The tokens after \<^verbatim>\<open>#define\<close> in \<^verbatim>\<open>#define A(x,x) x\<close> and in
  \<^verbatim>\<open>#define GL_A(x,x) x\<close>.\<close>

definition define_parameters :: "Token list" where
  "define_parameters =
     [punct (CHR ''('') 1, tok IDENTIFIER ''x'' 1, punct (CHR '','') 1, tok IDENTIFIER ''x'' 1,
      punct (CHR '')'') 1, (tok IDENTIFIER ''x'' 1)\<lparr>hasLeadingSpace := True\<rparr>,
      punct newline 1]"

definition define_state :: DirectiveParser where
  "define_state = DirectiveParser_ctor (tok IDENTIFIER ''A'' 1 # define_parameters) Map.empty 100"

definition define_reserved_state :: DirectiveParser where
  "define_reserved_state =
     DirectiveParser_ctor (tok IDENTIFIER ''GL_A'' 1 # define_parameters) Map.empty 100"








subsection \<open>Consumption of tokens, and lex\<close>

declare skipUntilEOD.simps [simp del]
declare parseDefine_parameters.simps [simp del]
declare parseDefine_replacements.simps [simp del]
declare parseError_loop.simps [simp del]
declare parsePragma_loop.simps [simp del]
declare parseExtension_loop.simps [simp del]
declare parseVersion_loop.simps [simp del]

subsection \<open>The directive parser only consumes tokens\<close>

lemma mTokenizer_report [simp]: "mTokenizer (report d l t s) = mTokenizer s"
  by (simp add: report_def)

lemma mTokenizer_handle [simp]: "mTokenizer (handle c s) = mTokenizer s"
  by (simp add: handle_def)

lemma mTokenizer_setBack [simp]: "mTokenizer (setBack f s) = mTokenizer s"
  by (simp add: setBack_def)




definition advance :: "DirectiveParser \<Rightarrow> DirectiveParser \<Rightarrow> bool" where
  "advance s s' = (\<exists>ts. s' = s\<lparr>mTokenizer := ts\<rparr> \<and> length ts \<le> length (mTokenizer s))"

lemma advance_refl [simp]: "advance s s"
  unfolding advance_def by (rule exI [of _ "mTokenizer s"]) simp

lemma advance_trans: "advance s s1 \<Longrightarrow> advance s1 s2 \<Longrightarrow> advance s s2"
  unfolding advance_def by auto


lemma advance_fields:
  assumes "advance s s'"
  shows "mPastFirstStatement s' = mPastFirstStatement s"
    and "mSeenNonPreprocessorToken s' = mSeenNonPreprocessorToken s"
    and "mConditionalStack s' = mConditionalStack s"
    and "mTokenizerCalls s' = mTokenizerCalls s"
    and "mMacroSet s' = mMacroSet s"
    and "mDiagnostics s' = mDiagnostics s"
    and "mDirectiveHandler s' = mDirectiveHandler s"
    and "mExpressionParser s' = mExpressionParser s"
    and "mShaderVersion s' = mShaderVersion s"
    and "mMaxMacroExpansionDepth s' = mMaxMacroExpansionDepth s"
  using assms unfolding advance_def by auto

lemma Tokenizer_lex_advance: "Tokenizer_lex s = (t, s') \<Longrightarrow> advance s s'"
  unfolding advance_def Tokenizer_lex_def
  by (cases "mTokenizer s") (auto intro: exI [of _ "mTokenizer s"])

lemma skipUntilEOD_EOD [simp]: "isEOD token \<Longrightarrow> skipUntilEOD token s = (token, s)"
  by (simp add: skipUntilEOD.simps)

lemma skipUntilEOD_step:
  "\<not> isEOD token \<Longrightarrow> Tokenizer_lex s = (t1, s1) \<Longrightarrow> skipUntilEOD token s = skipUntilEOD t1 s1"
  by (simp add: skipUntilEOD.simps)

lemma skipUntilEOD_props:
  "skipUntilEOD token s = (t, s') \<Longrightarrow> advance s s' \<and> isEOD t"
proof (induction token s rule: skipUntilEOD.induct)
  case (1 token s)
  show ?case
  proof (cases "isEOD token")
    case True
    then show ?thesis using 1 by simp
  next
    case False
    obtain t1 s1 where l: "Tokenizer_lex s = (t1, s1)" by (cases "Tokenizer_lex s")
    have "skipUntilEOD t1 s1 = (t, s')"
      using skipUntilEOD_step [OF False l] "1.prems" by simp
    then have "advance s1 s' \<and> isEOD t"
      using "1.IH" [OF False l [symmetric]] by simp
    then show ?thesis
      using advance_trans [OF Tokenizer_lex_advance [OF l]] by blast
  qed
qed

lemma skipUntilEOD_advance: "skipUntilEOD token s = (t, s') \<Longrightarrow> advance s s'"
  using skipUntilEOD_props by blast





























subsection \<open>End of input inside a conditional block\<close>


lemma skipping_mPastFirstStatement [simp]:
  "skipping (s\<lparr>mPastFirstStatement := b\<rparr>) = skipping s"
  by (simp add: skipping_def)




subsection \<open>undef\<close>

lemma Tokenizer_lex_Cons:
  "mTokenizer s = token # rest \<Longrightarrow> Tokenizer_lex s = (token, s\<lparr>mTokenizer := rest\<rparr>)"
  by (simp add: Tokenizer_lex_def)

lemma Tokenizer_lex_Nil:
  "mTokenizer s = [] \<Longrightarrow> Tokenizer_lex s = (eofToken, s)"
  by (simp add: Tokenizer_lex_def)

lemma expectEOD_macros:
  assumes "(case Tokenizer_lex s of (token', s') \<Rightarrow>
               if \<not> isEOD token'
               then skipUntilEOD token'
                      (report PP_UNEXPECTED_TOKEN (location token') (token_text token') s')
               else (token', s')) = (t, s2)"
  shows "mMacroSet s2 = mMacroSet s"
proof -
  obtain t1 s1 where l: "Tokenizer_lex s = (t1, s1)" by (cases "Tokenizer_lex s")
  have m1: "mMacroSet s1 = mMacroSet s"
    using advance_fields(5) [OF Tokenizer_lex_advance [OF l]] .
  show ?thesis
  proof (cases "isEOD t1")
    case True
    then show ?thesis using assms l m1 by simp
  next
    case False
    then have "skipUntilEOD t1 (report PP_UNEXPECTED_TOKEN (location t1) (token_text t1) s1)
                 = (t, s2)"
      using assms l by simp
    from advance_fields(5) [OF skipUntilEOD_advance [OF this]]
    show ?thesis using m1 by (simp add: report_def)
  qed
qed

text \<open>
  Claim C6. For \<^verbatim>\<open>#undef name\<close> (the token after \<^verbatim>\<open>undef\<close> is an identifier): if
  the table has an entry for the name and the entry is predefined, the report
  \<open>PP_MACRO_PREDEFINED_UNDEFINED\<close> is added and the table is unchanged; if it is not
  predefined and its expansion count is positive, the report
  \<open>PP_MACRO_UNDEFINED_WHILE_INVOKED\<close> is added and the table is unchanged; otherwise
  the entry is erased. So the table has no entry for the name afterwards exactly when the
  directive was not refused for one of these two reasons.
\<close>

theorem parseUndef_table:
  assumes "mTokenizer s = token # rest" and "token_type token = IDENTIFIER"
  shows "(case mMacroSet s (token_text token) of
            None \<Rightarrow> mMacroSet (snd (parseUndef token0 s)) = mMacroSet s
          | Some m \<Rightarrow>
              if predefined m then
                mDiagnostics (snd (parseUndef token0 s)) =
                  mDiagnostics s @
                    [(PP_MACRO_PREDEFINED_UNDEFINED, location token, token_text token)]
                \<and> mMacroSet (snd (parseUndef token0 s)) = mMacroSet s
              else if expansionCount m > 0 then
                mDiagnostics (snd (parseUndef token0 s)) =
                  mDiagnostics s @
                    [(PP_MACRO_UNDEFINED_WHILE_INVOKED, location token, token_text token)]
                \<and> mMacroSet (snd (parseUndef token0 s)) = mMacroSet s
              else
                mMacroSet (snd (parseUndef token0 s)) = (mMacroSet s)(token_text token := None))
       \<and> (mMacroSet (snd (parseUndef token0 s)) (token_text token) = None) =
           (case mMacroSet s (token_text token) of
              None \<Rightarrow> True
            | Some m \<Rightarrow> \<not> predefined m \<and> expansionCount m = 0)"
proof -
  let ?s1 = "s\<lparr>mTokenizer := rest\<rparr>"
  have l: "Tokenizer_lex s = (token, ?s1)"
    using assms(1) by (rule Tokenizer_lex_Cons)
  show ?thesis
  proof (cases "mMacroSet s (token_text token)")
    case None
    obtain t2 s2 where r: "parseUndef token0 s = (t2, s2)" by (cases "parseUndef token0 s")
    have "mMacroSet s2 = mMacroSet ?s1"
      using r l assms(2) None unfolding parseUndef_def Let_def
      by (intro expectEOD_macros [of ?s1 t2 s2]) simp
    then show ?thesis using None r by simp
  next
    case (Some m)
    show ?thesis
    proof (cases "predefined m \<or> expansionCount m > 0")
      case True
      then show ?thesis
        using l assms(2) Some unfolding parseUndef_def Let_def
        by (auto simp: report_def)
    next
      case False
      let ?s3 = "?s1\<lparr>mMacroSet := (mMacroSet ?s1)(token_text token := None)\<rparr>"
      obtain t2 s2 where r: "parseUndef token0 s = (t2, s2)" by (cases "parseUndef token0 s")
      have "mMacroSet s2 = mMacroSet ?s3"
        using r l assms(2) Some False unfolding parseUndef_def Let_def
        by (intro expectEOD_macros [of ?s3 t2 s2]) simp
      then show ?thesis using Some False r by simp
    qed
  qed
qed

theorem parseUndef_table_witness:
  "mTokenizer undef_state = tok IDENTIFIER ''A'' 3 # [punct newline 3]
   \<and> token_type (tok IDENTIFIER ''A'' 3) = IDENTIFIER
   \<and> mMacroSet undef_state ''A'' = Some macroA
   \<and> mMacroSet (snd (parseUndef (tok IDENTIFIER ''undef'' 3) undef_state)) ''A'' = None"
proof -
  have h1: "mTokenizer undef_state = tok IDENTIFIER ''A'' 3 # [punct newline 3]"
    by (simp add: undef_state_def DirectiveParser_ctor_def)
  have h2: "token_type (tok IDENTIFIER ''A'' 3) = IDENTIFIER"
    by (simp add: tok_def)
  have m: "mMacroSet undef_state (token_text (tok IDENTIFIER ''A'' 3)) = Some macroA"
    by (simp add: undef_state_def DirectiveParser_ctor_def tok_def)
  have "mMacroSet (snd (parseUndef (tok IDENTIFIER ''undef'' 3) undef_state))
          (token_text (tok IDENTIFIER ''A'' 3)) = None"
    using parseUndef_table [OF h1 h2, where ?token0.0 = "tok IDENTIFIER ''undef'' 3"] m
    by (simp add: macroA_def)
  then show ?thesis using h1 h2 m by (simp add: tok_def)
qed


subsection \<open>define with a repeated parameter\<close>

lemma parseDefine_parameters_duplicate:
  assumes "mTokenizer s = separated pcs @ d # rest"
    and "wellSeparated pcs"
    and "distinct (params @ parameterNames pcs)"
    and "token_type d = IDENTIFIER"
    and "token_text d \<in> set (params @ parameterNames pcs)"
  shows "parseDefine_parameters params s =
           (DuplicateParameter, params @ parameterNames pcs, d,
            report PP_MACRO_DUPLICATE_PARAMETER_NAMES (location d) (token_text d)
              (s\<lparr>mTokenizer := rest\<rparr>))"
  using assms
proof (induction pcs arbitrary: params s)
  case Nil
  then show ?case
    by (subst parseDefine_parameters.simps)
       (simp add: separated_def parameterNames_def Tokenizer_lex_def)
next
  case (Cons pc pcs)
  obtain p c where pc: "pc = (p, c)" by (cases pc)
  have stream: "mTokenizer s = p # c # separated pcs @ d # rest"
    using Cons.prems(1) pc by (simp add: separated_def)
  have tys: "token_type p = IDENTIFIER" "token_type c = Punctuator (CHR '','')"
    and ws: "wellSeparated pcs"
    using Cons.prems(2) pc by (simp_all add: wellSeparated_def)
  have fresh: "token_text p \<notin> set params"
    using Cons.prems(3) pc by (auto simp: parameterNames_def)
  let ?s2 = "s\<lparr>mTokenizer := separated pcs @ d # rest\<rparr>"
  have step: "parseDefine_parameters params s
                = parseDefine_parameters (params @ [token_text p]) ?s2"
    using stream tys fresh
    by (subst parseDefine_parameters.simps) (simp add: Tokenizer_lex_def)
  have "parseDefine_parameters (params @ [token_text p]) ?s2 =
          (DuplicateParameter, (params @ [token_text p]) @ parameterNames pcs, d,
           report PP_MACRO_DUPLICATE_PARAMETER_NAMES (location d) (token_text d)
             (?s2\<lparr>mTokenizer := rest\<rparr>))"
  proof (rule Cons.IH)
    show "mTokenizer ?s2 = separated pcs @ d # rest" by simp
    show "wellSeparated pcs" by (rule ws)
    show "distinct ((params @ [token_text p]) @ parameterNames pcs)"
      using Cons.prems(3) pc by (simp add: parameterNames_def)
    show "token_type d = IDENTIFIER" by (rule Cons.prems(4))
    show "token_text d \<in> set ((params @ [token_text p]) @ parameterNames pcs)"
      using Cons.prems(5) pc by (auto simp: parameterNames_def)
  qed
  then show ?case using step pc by (simp add: parameterNames_def)
qed

text \<open>
  Claim C5, as amended. For \<^verbatim>\<open>#define name(...)\<close> whose parameter list repeats a name
  (identifiers separated by commas, pairwise different up to an identifier that repeats
  one of them): the macro table is unchanged, and the reports added are: for a predefined
  name \<open>PP_MACRO_PREDEFINED_REDEFINED\<close> only; else for a name that starts with
  \<open>GL_\<close>, \<open>PP_MACRO_NAME_RESERVED\<close> only; else (after the warning for a name with a
  double underscore) \<open>PP_MACRO_DUPLICATE_PARAMETER_NAMES\<close> at the repeated parameter.
\<close>

theorem parseDefine_duplicate_parameter:
  assumes "mTokenizer s = name # lparen # separated pcs @ d # rest"
    and "token_type name = IDENTIFIER"
    and "token_type lparen = Punctuator (CHR ''('')" and "\<not> hasLeadingSpace lparen"
    and "wellSeparated pcs" and "distinct (parameterNames pcs)"
    and "token_type d = IDENTIFIER" and "token_text d \<in> set (parameterNames pcs)"
  shows "mMacroSet (snd (parseDefine token0 s)) = mMacroSet s
       \<and> mDiagnostics (snd (parseDefine token0 s)) =
           mDiagnostics s @
           (if isMacroPredefined (token_text name) (mMacroSet s) then
              [(PP_MACRO_PREDEFINED_REDEFINED, location name, token_text name)]
            else if isMacroNameReserved (token_text name) then
              [(PP_MACRO_NAME_RESERVED, location name, token_text name)]
            else
              (if hasDoubleUnderscores (token_text name)
               then [(PP_WARNING_MACRO_NAME_RESERVED, location name, token_text name)]
               else []) @
              [(PP_MACRO_DUPLICATE_PARAMETER_NAMES, location d, token_text d)])"
proof -
  let ?s1 = "s\<lparr>mTokenizer := lparen # separated pcs @ d # rest\<rparr>"
  have l1: "Tokenizer_lex s = (name, ?s1)"
    using assms(1) by (simp add: Tokenizer_lex_def)
  show ?thesis
  proof (cases "isMacroPredefined (token_text name) (mMacroSet s)
                \<or> isMacroNameReserved (token_text name)")
    case True
    then show ?thesis
      using l1 assms(2) by (auto simp: parseDefine_def report_def)
  next
    case False
    let ?w = "(if hasDoubleUnderscores (token_text name)
               then report PP_WARNING_MACRO_NAME_RESERVED (location name) (token_text name) ?s1
               else ?s1)"
    let ?s2 = "?w\<lparr>mTokenizer := separated pcs @ d # rest\<rparr>"
    have l2: "Tokenizer_lex ?w = (lparen, ?s2)"
      by (simp add: Tokenizer_lex_def report_def)
    have ps: "parseDefine_parameters [] ?s2 =
           (DuplicateParameter, [] @ parameterNames pcs, d,
            report PP_MACRO_DUPLICATE_PARAMETER_NAMES (location d) (token_text d)
              (?s2\<lparr>mTokenizer := rest\<rparr>))"
      using assms by (intro parseDefine_parameters_duplicate) (simp_all add: report_def)
    have "parseDefine token0 s =
            (d, report PP_MACRO_DUPLICATE_PARAMETER_NAMES (location d) (token_text d)
                  (?s2\<lparr>mTokenizer := rest\<rparr>))"
      using False l1 l2 ps assms(2,3,4)
      by (simp add: parseDefine_def Let_def)
    then show ?thesis using False by (simp add: report_def)
  qed
qed

theorem parseDefine_duplicate_parameter_witness:
  "mTokenizer define_state =
      tok IDENTIFIER ''A'' 1 # punct (CHR ''('') 1
        # separated [(tok IDENTIFIER ''x'' 1, punct (CHR '','') 1)]
        @ tok IDENTIFIER ''x'' 1
        # [punct (CHR '')'') 1, (tok IDENTIFIER ''x'' 1)\<lparr>hasLeadingSpace := True\<rparr>,
           punct newline 1]
   \<and> mDiagnostics (snd (parseDefine (tok IDENTIFIER ''define'' 1) define_state)) =
       [(PP_MACRO_DUPLICATE_PARAMETER_NAMES, \<lparr>loc_file = 0, loc_line = 1\<rparr>, ''x'')]
   \<and> mMacroSet (snd (parseDefine (tok IDENTIFIER ''define'' 1) define_state)) ''A'' = None"
proof -
  let ?pcs = "[(tok IDENTIFIER ''x'' 1, punct (CHR '','') 1)]"
  let ?rest = "[punct (CHR '')'') 1, (tok IDENTIFIER ''x'' 1)\<lparr>hasLeadingSpace := True\<rparr>,
                punct newline 1]"
  have h1: "mTokenizer define_state =
      tok IDENTIFIER ''A'' 1 # punct (CHR ''('') 1 # separated ?pcs @ tok IDENTIFIER ''x'' 1 # ?rest"
    by (simp add: define_state_def define_parameters_def DirectiveParser_ctor_def separated_def)
  have h2: "token_type (tok IDENTIFIER ''A'' 1) = IDENTIFIER" by (simp add: tok_def)
  have h3: "token_type (punct (CHR ''('') 1) = Punctuator (CHR ''('')"
    by (simp add: punct_def tok_def)
  have h4: "\<not> hasLeadingSpace (punct (CHR ''('') 1)" by (simp add: punct_def tok_def)
  have h5: "wellSeparated ?pcs" by (simp add: wellSeparated_def punct_def tok_def)
  have h6: "distinct (parameterNames ?pcs)" by (simp add: parameterNames_def)
  have h7: "token_type (tok IDENTIFIER ''x'' 1) = IDENTIFIER" by (simp add: tok_def)
  have h8: "token_text (tok IDENTIFIER ''x'' 1) \<in> set (parameterNames ?pcs)"
    by (simp add: parameterNames_def)
  have m: "mMacroSet define_state = Map.empty"
    by (simp add: define_state_def DirectiveParser_ctor_def)
  have d: "mDiagnostics define_state = []"
    by (simp add: define_state_def DirectiveParser_ctor_def)
  show ?thesis
    using parseDefine_duplicate_parameter
            [OF h1 h2 h3 h4 h5 h6 h7 h8, where ?token0.0 = "tok IDENTIFIER ''define'' 1"]
          h1 m d
    by (simp add: tok_def isMacroPredefined_def isMacroNameReserved_def)
qed

text \<open>
  Claim C5 as stated fails for a reserved name: \<^verbatim>\<open>#define GL_A(x,x) x\<close> is refused with
  \<open>PP_MACRO_NAME_RESERVED\<close> before the parameter list is read, and that is the only
  report.
\<close>

theorem parseDefine_reserved_name_counterexample:
  "mDiagnostics (snd (parseDefine (tok IDENTIFIER ''define'' 1) define_reserved_state)) =
     [(PP_MACRO_NAME_RESERVED, \<lparr>loc_file = 0, loc_line = 1\<rparr>, ''GL_A'')]"
  by code_simp

subsection \<open>version\<close>






lemma isEOD_eofToken [simp]: "isEOD eofToken"
  by (simp add: isEOD_def eofToken_def)












subsection \<open>elif\<close>

text \<open>
  The directives other than the conditional ones leave the conditional stack as it is.
\<close>

lemma mConditionalStack_report [simp]: "mConditionalStack (report d l t s) = mConditionalStack s"
  by (simp add: report_def)

lemma mConditionalStack_handle [simp]: "mConditionalStack (handle c s) = mConditionalStack s"
  by (simp add: handle_def)

lemma mConditionalStack_applyParsed [simp]:
  "mConditionalStack (applyParsed r s) = mConditionalStack s"
  by (simp add: applyParsed_def)

lemma mExpressionParser_report [simp]: "mExpressionParser (report d l t s) = mExpressionParser s"
  by (simp add: report_def)

lemma mExpressionParser_applyParsed [simp]:
  "mExpressionParser (applyParsed r s) = mExpressionParser s"
  by (simp add: applyParsed_def)

lemma mExpressionParser_setBack [simp]: "mExpressionParser (setBack f s) = mExpressionParser s"
  by (simp add: setBack_def)





















text \<open>
  Every directive, and every round of the loop of \<open>lex\<close>, makes one \<open>stackStep\<close>.
\<close>

lemma stackStep_refl [simp]: "stackStep st st"
  by (simp add: stackStep_def)























section \<open>Limitations validator (src/OpenGL/compiler/ValidateLimitations.cpp)\<close>

text \<open>
  The basic types and the qualifiers are the enumerations of \<^verbatim>\<open>BaseTypes.h\<close>, with
  \<^verbatim>\<open>IsInteger\<close> and \<^verbatim>\<open>getBasicString\<close>.
\<close>

datatype TBasicType =
    EbtVoid | EbtFloat | EbtInt | EbtUInt | EbtBool
  | EbtGVec4 | EbtGenType | EbtGenIType | EbtGenUType | EbtGenBType
  | EbtVec | EbtIVec | EbtUVec | EbtBVec
  | EbtGuardSamplerBegin
  | EbtSampler2D | EbtSampler3D | EbtSamplerCube | EbtSampler2DArray | EbtSamplerExternalOES
  | EbtISampler2D | EbtISampler3D | EbtISamplerCube | EbtISampler2DArray
  | EbtUSampler2D | EbtUSampler3D | EbtUSamplerCube | EbtUSampler2DArray
  | EbtSampler2DShadow | EbtSamplerCubeShadow | EbtSampler2DArrayShadow
  | EbtGuardSamplerEnd
  | EbtGSampler2D | EbtGSampler3D | EbtGSamplerCube | EbtGSampler2DArray
  | EbtStruct | EbtInterfaceBlock | EbtInvariant

datatype TQualifier =
    EvqTemporary | EvqGlobal | EvqConstExpr | EvqAttribute
  | EvqVaryingIn | EvqVaryingOut | EvqInvariantVaryingIn | EvqInvariantVaryingOut
  | EvqUniform
  | EvqVertexIn | EvqFragmentOut | EvqVertexOut | EvqFragmentIn
  | EvqInput | EvqOutput
  | EvqIn | EvqOut | EvqInOut | EvqConstReadOnly
  | EvqPosition | EvqPointSize | EvqInstanceID | EvqVertexID
  | EvqFragCoord | EvqFrontFacing | EvqPointCoord
  | EvqFragColor | EvqFragData | EvqFragDepth
  | EvqSmooth | EvqFlat | EvqCentroidOut | EvqSmoothIn | EvqFlatIn | EvqCentroidIn
  | EvqLast

definition IsInteger :: "TBasicType \<Rightarrow> bool" where
  "IsInteger t = (t = EbtInt \<or> t = EbtUInt)"

definition getBasicString :: "TBasicType \<Rightarrow> string" where
  "getBasicString t =
     (case t of
        EbtVoid \<Rightarrow> ''void''
      | EbtFloat \<Rightarrow> ''float''
      | EbtInt \<Rightarrow> ''int''
      | EbtUInt \<Rightarrow> ''uint''
      | EbtBool \<Rightarrow> ''bool''
      | EbtSampler2D \<Rightarrow> ''sampler2D''
      | EbtSamplerCube \<Rightarrow> ''samplerCube''
      | EbtSamplerExternalOES \<Rightarrow> ''samplerExternalOES''
      | EbtSampler3D \<Rightarrow> ''sampler3D''
      | EbtStruct \<Rightarrow> ''structure''
      | _ \<Rightarrow> ''unknown type'')"

text \<open>
  Modelled from the spec: the syntax tree (\<^verbatim>\<open>intermediate.h\<close>, \<^verbatim>\<open>Types.h\<close> and
  \<^verbatim>\<open>IntermTraverse.cpp\<close> are not among the sources). The nodes are the sum
  \<open>{symbol, literal, unary, binary, selection, aggregate, loop, branch}\<close>; every node has
  a source location, every typed node a type. Of a type the validator reads the basic type
  and the qualifier, and whether it is a scalar (\<^verbatim>\<open>isScalarInt\<close>: a scalar whose basic
  type is an integer type). Of the operators, those that the validator names are
  constructors of their own; \<open>EOpOther\<close> stands for every other operator. A symbol node
  has an id and a name; an aggregate has an operator, a name and the sequence of its
  children; a loop has a loop type and an optional init, condition, expression and body.
\<close>

datatype TOperator =
    EOpNull
  | EOpSequence | EOpFunctionCall | EOpDeclaration
  | EOpNegative | EOpLogicalNot
  | EOpPostIncrement | EOpPostDecrement | EOpPreIncrement | EOpPreDecrement
  | EOpAdd | EOpSub | EOpMul | EOpDiv
  | EOpEqual | EOpNotEqual | EOpLessThan | EOpGreaterThan
  | EOpLessThanEqual | EOpGreaterThanEqual
  | EOpIndexDirect | EOpIndexIndirect
  | EOpAssign | EOpInitialize | EOpAddAssign | EOpSubAssign | EOpMulAssign | EOpDivAssign
  | EOpOther nat

datatype TLoopType = ELoopFor | ELoopWhile | ELoopDoWhile

type_synonym TSourceLoc = int

record TType =
  basicType :: TBasicType
  qualifier :: TQualifier
  isScalar :: bool

datatype TIntermNode =
    TIntermSymbol TSourceLoc int string TType
  | TIntermConstantUnion TSourceLoc TType
  | TIntermBinary TSourceLoc TOperator TIntermNode TIntermNode TType
  | TIntermUnary TSourceLoc TOperator TIntermNode TType
  | TIntermAggregate TSourceLoc TOperator string "TIntermNode list" TType
  | TIntermSelection TSourceLoc TIntermNode "TIntermNode option" "TIntermNode option" TType
  | TIntermLoop TSourceLoc TLoopType "TIntermNode option" "TIntermNode option"
      "TIntermNode option" "TIntermNode option"
  | TIntermBranch TSourceLoc TOperator "TIntermNode option"

fun getLine :: "TIntermNode \<Rightarrow> TSourceLoc" where
  "getLine (TIntermSymbol l _ _ _) = l"
| "getLine (TIntermConstantUnion l _) = l"
| "getLine (TIntermBinary l _ _ _ _) = l"
| "getLine (TIntermUnary l _ _ _) = l"
| "getLine (TIntermAggregate l _ _ _ _) = l"
| "getLine (TIntermSelection l _ _ _ _) = l"
| "getLine (TIntermLoop l _ _ _ _ _) = l"
| "getLine (TIntermBranch l _ _) = l"

text \<open>
  \<^verbatim>\<open>getAsTyped\<close> and the other \<^verbatim>\<open>getAs...\<close> casts yield \<open>None\<close> for the null
  pointer, and otherwise what the validator reads of the node.
\<close>

fun getAsTyped :: "TIntermNode \<Rightarrow> TType option" where
  "getAsTyped (TIntermSymbol _ _ _ t) = Some t"
| "getAsTyped (TIntermConstantUnion _ t) = Some t"
| "getAsTyped (TIntermBinary _ _ _ _ t) = Some t"
| "getAsTyped (TIntermUnary _ _ _ t) = Some t"
| "getAsTyped (TIntermAggregate _ _ _ _ t) = Some t"
| "getAsTyped (TIntermSelection _ _ _ _ t) = Some t"
| "getAsTyped (TIntermLoop _ _ _ _ _ _) = None"
| "getAsTyped (TIntermBranch _ _ _) = None"

fun getAsAggregate ::
  "TIntermNode \<Rightarrow> (TSourceLoc \<times> TOperator \<times> string \<times> TIntermNode list) option" where
  "getAsAggregate (TIntermAggregate l op name seq t) = Some (l, op, name, seq)"
| "getAsAggregate _ = None"

fun getAsBinaryNode ::
  "TIntermNode \<Rightarrow> (TSourceLoc \<times> TOperator \<times> TIntermNode \<times> TIntermNode) option" where
  "getAsBinaryNode (TIntermBinary l op left right t) = Some (l, op, left, right)"
| "getAsBinaryNode _ = None"

fun getAsUnaryNode :: "TIntermNode \<Rightarrow> (TSourceLoc \<times> TOperator \<times> TIntermNode) option" where
  "getAsUnaryNode (TIntermUnary l op operand t) = Some (l, op, operand)"
| "getAsUnaryNode _ = None"

fun getAsSymbolNode :: "TIntermNode \<Rightarrow> (TSourceLoc \<times> int \<times> string \<times> TType) option" where
  "getAsSymbolNode (TIntermSymbol l symbolId name t) = Some (l, symbolId, name, t)"
| "getAsSymbolNode _ = None"

fun getAsConstantUnion :: "TIntermNode \<Rightarrow> TType option" where
  "getAsConstantUnion (TIntermConstantUnion l t) = Some t"
| "getAsConstantUnion _ = None"

definition isScalarInt :: "TIntermNode \<Rightarrow> bool" where
  "isScalarInt node =
     (case getAsTyped node of Some t \<Rightarrow> isScalar t \<and> IsInteger (basicType t) | None \<Rightarrow> False)"

definition getQualifier :: "TIntermNode \<Rightarrow> TQualifier option" where
  "getQualifier node = map_option qualifier (getAsTyped node)"

text \<open>
  Modelled from the spec: a traversal of a node with a \<^verbatim>\<open>TIntermTraverser\<close> that
  overrides \<^verbatim>\<open>visitSymbol\<close> only calls it on every symbol node below the node.
  \<open>symbolsOf\<close> lists the id and the type of these symbols.
\<close>

fun symbolsOf :: "TIntermNode \<Rightarrow> (int \<times> TType) list" where
  "symbolsOf (TIntermSymbol l symbolId name t) = [(symbolId, t)]"
| "symbolsOf (TIntermConstantUnion l t) = []"
| "symbolsOf (TIntermBinary l op left right t) = symbolsOf left @ symbolsOf right"
| "symbolsOf (TIntermUnary l op operand t) = symbolsOf operand"
| "symbolsOf (TIntermAggregate l op name seq t) = concat (map symbolsOf seq)"
| "symbolsOf (TIntermSelection l c t f ty) =
     symbolsOf c @ (case t of None \<Rightarrow> [] | Some n \<Rightarrow> symbolsOf n)
       @ (case f of None \<Rightarrow> [] | Some n \<Rightarrow> symbolsOf n)"
| "symbolsOf (TIntermLoop l ty init cond expr body) =
     (case init of None \<Rightarrow> [] | Some n \<Rightarrow> symbolsOf n)
       @ (case cond of None \<Rightarrow> [] | Some n \<Rightarrow> symbolsOf n)
       @ (case expr of None \<Rightarrow> [] | Some n \<Rightarrow> symbolsOf n)
       @ (case body of None \<Rightarrow> [] | Some n \<Rightarrow> symbolsOf n)"
| "symbolsOf (TIntermBranch l op e) = (case e of None \<Rightarrow> [] | Some n \<Rightarrow> symbolsOf n)"

subsection \<open>The validator and its diagnostics\<close>

text \<open>
  Modelled from the spec: the info sink (\<^verbatim>\<open>InfoSink.h\<close> is not among the sources) is the
  list of the messages written to it, each with its location, its reason and its token. The
  token is a text, or the string of an operator (\<^verbatim>\<open>getOperatorString\<close>) or of a node
  (\<^verbatim>\<open>getCompleteString\<close>). The validator has the shader type, the sink, the number of
  errors and the stack of the enclosing loops; of a \<^verbatim>\<open>TLoopInfo\<close> the model keeps the id of
  the index and the loop node.
\<close>

datatype ErrorToken =
    Text string
  | OperatorString TOperator
  | CompleteString TIntermNode

record TLoopInfo =
  index_id :: int
  loop :: TIntermNode

record ValidateLimitations =
  mShaderType :: nat
  mSink :: "(TSourceLoc \<times> string \<times> ErrorToken) list"
  mNumErrors :: nat
  mLoopStack :: "TLoopInfo list"

definition GL_VERTEX_SHADER :: nat where
  "GL_VERTEX_SHADER = 0x8B31"

definition error :: "TSourceLoc \<Rightarrow> string \<Rightarrow> ErrorToken \<Rightarrow> ValidateLimitations \<Rightarrow> ValidateLimitations" where
  "error loc reason token s =
     s\<lparr>mSink := mSink s @ [(loc, reason, token)], mNumErrors := mNumErrors s + 1\<rparr>"

subsection \<open>Index expressions\<close>

definition IsLoopIndex :: "int \<Rightarrow> TLoopInfo list \<Rightarrow> bool" where
  "IsLoopIndex symbolId stack = list_ex (\<lambda>i. index_id i = symbolId) stack"

text \<open>
  \<^verbatim>\<open>ValidateConstIndexExpr::visitSymbol\<close>, as a function of the flag \<open>mValid\<close>, and
  \<^verbatim>\<open>isConstIndexExpr\<close>, which starts the traversal with \<open>mValid = true\<close>.
\<close>

definition ValidateConstIndexExpr_visitSymbol ::
  "TLoopInfo list \<Rightarrow> int \<times> TType \<Rightarrow> bool \<Rightarrow> bool" where
  "ValidateConstIndexExpr_visitSymbol stack symbol mValid =
     (if mValid
      then (qualifier (snd symbol) = EvqConstExpr) \<or> IsLoopIndex (fst symbol) stack
      else mValid)"

definition isConstExpr :: "TIntermNode \<Rightarrow> bool" where
  "isConstExpr node = (getAsConstantUnion node \<noteq> None)"

definition isConstIndexExpr :: "ValidateLimitations \<Rightarrow> TIntermNode \<Rightarrow> bool" where
  "isConstIndexExpr s node =
     fold (ValidateConstIndexExpr_visitSymbol (mLoopStack s)) (symbolsOf node) True"

text \<open>
  \<^verbatim>\<open>validateIndexing(node)\<close>, the node given by its operands \<open>left = node->getLeft()\<close>
  and \<open>right = node->getRight()\<close>. The result is the returned flag and the validator.
\<close>

definition validateIndexing :: "TIntermNode \<Rightarrow> TIntermNode \<Rightarrow> ValidateLimitations \<Rightarrow> bool \<times> ValidateLimitations" where
  "validateIndexing left right s =
     (let index = right;
          (valid1, s1) =
            (if \<not> isScalarInt index
             then (False, error (getLine index) ''Index expression must have integral type''
                            (CompleteString index) s)
             else (True, s));
          operand = left;
          skip = (mShaderType s1 = GL_VERTEX_SHADER \<and> getQualifier operand = Some EvqUniform)
      in if \<not> skip \<and> \<not> isConstIndexExpr s1 index
         then (False, error (getLine index) ''Index expression must be constant'' (Text ''[]'') s1)
         else (valid1, s1))"

subsection \<open>Loops\<close>

text \<open>
  The validation functions take the fields of the loop node that they read: its line and
  its type, init, condition or expression. They return their flag and the validator;
  \<open>validateForLoopInit\<close> also returns the \<^verbatim>\<open>TLoopInfo\<close>, in which it sets the id of the
  index.
\<close>

definition validateLoopType :: "TSourceLoc \<Rightarrow> TLoopType \<Rightarrow> ValidateLimitations \<Rightarrow> bool \<times> ValidateLimitations" where
  "validateLoopType line type s =
     (if type = ELoopFor then (True, s)
      else (False, error line ''This type of loop is not allowed''
                     (Text (if type = ELoopWhile then ''while'' else ''do'')) s))"

definition validateForLoopInit ::
  "TSourceLoc \<Rightarrow> TIntermNode option \<Rightarrow> TLoopInfo \<Rightarrow> ValidateLimitations
    \<Rightarrow> bool \<times> TLoopInfo \<times> ValidateLimitations" where
  "validateForLoopInit line init info s =
     (case init of
        None \<Rightarrow> (False, info, error line ''Missing init declaration'' (Text ''for'') s)
      | Some initNode \<Rightarrow>
          (case getAsAggregate initNode of
             None \<Rightarrow>
               (False, info,
                error (getLine initNode) ''Invalid init declaration'' (Text ''for'') s)
           | Some (declLine, declOp, declName, declSeq) \<Rightarrow>
               if declOp \<noteq> EOpDeclaration then
                 (False, info,
                  error (getLine initNode) ''Invalid init declaration'' (Text ''for'') s)
               else if length declSeq \<noteq> 1 then
                 (False, info, error declLine ''Invalid init declaration'' (Text ''for'') s)
               else
                 (case getAsBinaryNode (declSeq ! 0) of
                    None \<Rightarrow>
                      (False, info, error declLine ''Invalid init declaration'' (Text ''for'') s)
                  | Some (initLine, initOp, left, right) \<Rightarrow>
                      if initOp \<noteq> EOpInitialize then
                        (False, info, error declLine ''Invalid init declaration'' (Text ''for'') s)
                      else
                        (case getAsSymbolNode left of
                           None \<Rightarrow>
                             (False, info,
                              error initLine ''Invalid init declaration'' (Text ''for'') s)
                         | Some (symbolLine, symbolId, name, symbolType) \<Rightarrow>
                             if \<not> IsInteger (basicType symbolType)
                                \<and> basicType symbolType \<noteq> EbtFloat then
                               (False, info,
                                error symbolLine ''Invalid type for loop index''
                                  (Text (getBasicString (basicType symbolType))) s)
                             else if \<not> isConstExpr right then
                               (False, info,
                                error initLine
                                  ''Loop index cannot be initialized with non-constant expression''
                                  (Text name) s)
                             else (True, info\<lparr>index_id := symbolId\<rparr>, s)))))"

definition isRelationalOperator :: "TOperator \<Rightarrow> bool" where
  "isRelationalOperator op =
     (case op of
        EOpEqual \<Rightarrow> True
      | EOpNotEqual \<Rightarrow> True
      | EOpLessThan \<Rightarrow> True
      | EOpGreaterThan \<Rightarrow> True
      | EOpLessThanEqual \<Rightarrow> True
      | EOpGreaterThanEqual \<Rightarrow> True
      | _ \<Rightarrow> False)"

text \<open>
  In \<^verbatim>\<open>validateForLoopCond\<close> an operator that is not relational is reported, and the
  function goes on.
\<close>

definition validateForLoopCond ::
  "TSourceLoc \<Rightarrow> TIntermNode option \<Rightarrow> TLoopInfo \<Rightarrow> ValidateLimitations
    \<Rightarrow> bool \<times> ValidateLimitations" where
  "validateForLoopCond line cond info s =
     (case cond of
        None \<Rightarrow> (False, error line ''Missing condition'' (Text ''for'') s)
      | Some condNode \<Rightarrow>
          (case getAsBinaryNode condNode of
             None \<Rightarrow> (False, error line ''Invalid condition'' (Text ''for'') s)
           | Some (binLine, op, left, right) \<Rightarrow>
               (case getAsSymbolNode left of
                  None \<Rightarrow> (False, error binLine ''Invalid condition'' (Text ''for'') s)
                | Some (symbolLine, symbolId, name, symbolType) \<Rightarrow>
                    if symbolId \<noteq> index_id info then
                      (False, error symbolLine ''Expected loop index'' (Text name) s)
                    else
                      (let s1 = (if isRelationalOperator op then s
                                 else error binLine ''Invalid relational operator''
                                        (OperatorString op) s)
                       in if \<not> isConstExpr right then
                            (False,
                             error binLine
                               ''Loop index cannot be compared with non-constant expression''
                               (Text name) s1)
                          else (True, s1)))))"

definition isLoopStepOperator :: "TOperator \<Rightarrow> bool" where
  "isLoopStepOperator op =
     (case op of
        EOpPostIncrement \<Rightarrow> True
      | EOpPostDecrement \<Rightarrow> True
      | EOpPreIncrement \<Rightarrow> True
      | EOpPreDecrement \<Rightarrow> True
      | EOpAddAssign \<Rightarrow> True
      | EOpSubAssign \<Rightarrow> True
      | _ \<Rightarrow> False)"

definition validateForLoopExpr ::
  "TSourceLoc \<Rightarrow> TIntermNode option \<Rightarrow> TLoopInfo \<Rightarrow> ValidateLimitations
    \<Rightarrow> bool \<times> ValidateLimitations" where
  "validateForLoopExpr line expr info s =
     (case expr of
        None \<Rightarrow> (False, error line ''Missing expression'' (Text ''for'') s)
      | Some exprNode \<Rightarrow>
          (let unOp = getAsUnaryNode exprNode;
               binOp = (if unOp \<noteq> None then None else getAsBinaryNode exprNode);
               (op, symbol) =
                 (case unOp of
                    Some (l, unaryOp, operand) \<Rightarrow> (unaryOp, getAsSymbolNode operand)
                  | None \<Rightarrow>
                      (case binOp of
                         Some (l, binaryOp, left, right) \<Rightarrow> (binaryOp, getAsSymbolNode left)
                       | None \<Rightarrow> (EOpNull, None)))
           in case symbol of
                None \<Rightarrow> (False, error (getLine exprNode) ''Invalid expression'' (Text ''for'') s)
              | Some (symbolLine, symbolId, name, symbolType) \<Rightarrow>
                  if symbolId \<noteq> index_id info then
                    (False, error symbolLine ''Expected loop index'' (Text name) s)
                  else if \<not> isLoopStepOperator op then
                    (False, error (getLine exprNode) ''Invalid operator'' (OperatorString op) s)
                  else
                    (case binOp of
                       Some (binLine, binaryOp, left, right) \<Rightarrow>
                         if \<not> isConstExpr right then
                           (False,
                            error binLine
                              ''Loop index cannot be modified by non-constant expression''
                              (Text name) s)
                         else (True, s)
                     | None \<Rightarrow> (True, s))))"

text \<open>
  The two \<^verbatim>\<open>ASSERT\<close>s of \<^verbatim>\<open>validateForLoopExpr\<close>: an increment or decrement operator
  is the operator of a unary node, a \<open>+=\<close> or \<open>-=\<close> that of a binary node.
\<close>

definition validateForLoopExpr_asserts :: "TIntermNode option \<Rightarrow> bool" where
  "validateForLoopExpr_asserts expr =
     (case expr of
        None \<Rightarrow> True
      | Some exprNode \<Rightarrow>
          (case getAsUnaryNode exprNode of
             Some (l, op, operand) \<Rightarrow> op \<noteq> EOpAddAssign \<and> op \<noteq> EOpSubAssign
           | None \<Rightarrow>
               (case getAsBinaryNode exprNode of
                  Some (l, op, left, right) \<Rightarrow>
                    op \<noteq> EOpPostIncrement \<and> op \<noteq> EOpPostDecrement
                    \<and> op \<noteq> EOpPreIncrement \<and> op \<noteq> EOpPreDecrement
                | None \<Rightarrow> True)))"

definition validateForLoopHeader ::
  "TSourceLoc \<Rightarrow> TIntermNode option \<Rightarrow> TIntermNode option \<Rightarrow> TIntermNode option
    \<Rightarrow> TLoopInfo \<Rightarrow> ValidateLimitations \<Rightarrow> bool \<times> TLoopInfo \<times> ValidateLimitations" where
  "validateForLoopHeader line init cond expr info s =
     (case validateForLoopInit line init info s of (ok1, info1, s1) \<Rightarrow>
        if \<not> ok1 then (False, info1, s1)
        else
          (case validateForLoopCond line cond info1 s1 of (ok2, s2) \<Rightarrow>
             if \<not> ok2 then (False, info1, s2)
             else
               (case validateForLoopExpr line expr info1 s2 of (ok3, s3) \<Rightarrow>
                  if \<not> ok3 then (False, info1, s3) else (True, info1, s3))))"

text \<open>
  \<^verbatim>\<open>visitLoop\<close>. The traversal of the body by the validator itself is the parameter
  \<open>traverse\<close>. The function is called on loop nodes only; the last equation is there to
  make it total.
\<close>

fun visitLoop ::
  "(TIntermNode \<Rightarrow> ValidateLimitations \<Rightarrow> ValidateLimitations) \<Rightarrow> TIntermNode
    \<Rightarrow> ValidateLimitations \<Rightarrow> bool \<times> ValidateLimitations" where
  "visitLoop traverse (TIntermLoop line type init cond expr body) s =
     (case validateLoopType line type s of (ok1, s1) \<Rightarrow>
        if \<not> ok1 then (False, s1)
        else
          (let info = \<lparr>index_id = 0, loop = TIntermLoop line type init cond expr body\<rparr> in
           case validateForLoopHeader line init cond expr info s1 of (ok2, info2, s2) \<Rightarrow>
             if \<not> ok2 then (False, s2)
             else
               (case body of
                  Some b \<Rightarrow>
                    (let s3 = traverse b (s2\<lparr>mLoopStack := mLoopStack s2 @ [info2]\<rparr>)
                     in (False, s3\<lparr>mLoopStack := butlast (mLoopStack s3)\<rparr>))
                | None \<Rightarrow> (False, s2))))"
| "visitLoop traverse node s = (True, s)"

subsection \<open>The loops that the validator accepts, and constant index expressions\<close>

text \<open>
  The form of the loops on which the header checks report nothing.
  \<open>declaresIndexOfBasicType init idx\<close>: the init is a declaration of exactly one variable,
  the symbol with id \<open>idx\<close>, whose initializer is a constant and whose basic type is int,
  uint or float. Only the basic type is constrained, as in \<open>validateForLoopInit\<close>: the
  type may be a scalar, a vector or a matrix of that basic type.
  \<open>conditionForm idx cond\<close>: the condition compares the symbol \<open>idx\<close>, on the
  left, with a constant, by one of the six relational operators. \<open>stepForm idx expr\<close>: the
  expression is an increment or decrement of the symbol \<open>idx\<close>, or adds a constant to it
  or subtracts one from it.
\<close>

definition declaresIndexOfBasicType :: "TIntermNode option \<Rightarrow> int \<Rightarrow> bool" where
  "declaresIndexOfBasicType init idx =
     (\<exists>l name bl sl n t c bt ty.
        init = Some (TIntermAggregate l EOpDeclaration name
                       [TIntermBinary bl EOpInitialize (TIntermSymbol sl idx n t) c bt] ty)
        \<and> (basicType t = EbtInt \<or> basicType t = EbtUInt \<or> basicType t = EbtFloat)
        \<and> (\<exists>cl ct. c = TIntermConstantUnion cl ct))"

definition conditionForm :: "int \<Rightarrow> TIntermNode option \<Rightarrow> bool" where
  "conditionForm idx cond =
     (\<exists>l op sl n t cl ct bt.
        cond = Some (TIntermBinary l op (TIntermSymbol sl idx n t) (TIntermConstantUnion cl ct) bt)
        \<and> op \<in> {EOpLessThan, EOpLessThanEqual, EOpGreaterThan, EOpGreaterThanEqual,
                 EOpEqual, EOpNotEqual})"

definition stepForm :: "int \<Rightarrow> TIntermNode option \<Rightarrow> bool" where
  "stepForm idx expr =
     ((\<exists>l op sl n t ut.
         expr = Some (TIntermUnary l op (TIntermSymbol sl idx n t) ut)
         \<and> op \<in> {EOpPreIncrement, EOpPreDecrement, EOpPostIncrement, EOpPostDecrement})
      \<or> (\<exists>l op sl n t cl ct bt.
         expr = Some (TIntermBinary l op (TIntermSymbol sl idx n t) (TIntermConstantUnion cl ct) bt)
         \<and> op \<in> {EOpAddAssign, EOpSubAssign}))"

definition acceptedFor ::
  "TLoopType \<Rightarrow> TIntermNode option \<Rightarrow> TIntermNode option \<Rightarrow> TIntermNode option \<Rightarrow> bool" where
  "acceptedFor type init cond expr =
     (type = ELoopFor
      \<and> (\<exists>idx. declaresIndexOfBasicType init idx \<and> conditionForm idx cond
                 \<and> stepForm idx expr))"

text \<open>
  \<open>reportsError s s'\<close>: from \<open>s\<close> to \<open>s'\<close> the number of errors and the sink have
  grown; \<open>keepsErrors\<close>: they have not shrunk.
\<close>

definition reportsError :: "ValidateLimitations \<Rightarrow> ValidateLimitations \<Rightarrow> bool" where
  "reportsError s s' =
     (mNumErrors s < mNumErrors s' \<and> length (mSink s) < length (mSink s'))"

definition keepsErrors :: "ValidateLimitations \<Rightarrow> ValidateLimitations \<Rightarrow> bool" where
  "keepsErrors s s' =
     (mNumErrors s \<le> mNumErrors s' \<and> length (mSink s) \<le> length (mSink s'))"



subsection \<open>Example trees\<close>

text \<open>
  The loop \<^verbatim>\<open>for(int i = 0; i < 4; ++i)\<close> in parts, a uniform array \<open>u\<close>, a
  variable \<open>n\<close> of type int, and a validator that has reported nothing.
\<close>

definition int_type :: TType where
  "int_type = \<lparr>basicType = EbtInt, qualifier = EvqTemporary, isScalar = True\<rparr>"

definition const_int_type :: TType where
  "const_int_type = \<lparr>basicType = EbtInt, qualifier = EvqConstExpr, isScalar = True\<rparr>"

definition bool_type :: TType where
  "bool_type = \<lparr>basicType = EbtBool, qualifier = EvqTemporary, isScalar = True\<rparr>"

definition loop_index :: TIntermNode where
  "loop_index = TIntermSymbol 1 7 ''i'' int_type"

definition canonical_init :: TIntermNode where
  "canonical_init =
     TIntermAggregate 1 EOpDeclaration []
       [TIntermBinary 1 EOpInitialize loop_index (TIntermConstantUnion 1 const_int_type) int_type]
       int_type"

definition canonical_cond :: TIntermNode where
  "canonical_cond =
     TIntermBinary 1 EOpLessThan loop_index (TIntermConstantUnion 1 const_int_type) bool_type"

definition canonical_expr :: TIntermNode where
  "canonical_expr = TIntermUnary 1 EOpPreIncrement loop_index int_type"

definition validator0 :: "nat \<Rightarrow> ValidateLimitations" where
  "validator0 shaderType = \<lparr>mShaderType = shaderType, mSink = [], mNumErrors = 0, mLoopStack = []\<rparr>"

definition GL_FRAGMENT_SHADER :: nat where
  "GL_FRAGMENT_SHADER = 0x8B30"

definition uniform_array :: TIntermNode where
  "uniform_array =
     TIntermSymbol 1 10 ''u'' \<lparr>basicType = EbtFloat, qualifier = EvqUniform, isScalar = False\<rparr>"


text \<open>
  The loop \<^verbatim>\<open>for(ivec2 i = ivec2(0); i != ivec2(4); ++i)\<close> in parts: its index is a
  vector of two ints.
\<close>

definition ivec2_type :: TType where
  "ivec2_type = \<lparr>basicType = EbtInt, qualifier = EvqTemporary, isScalar = False\<rparr>"

definition const_ivec2_type :: TType where
  "const_ivec2_type = \<lparr>basicType = EbtInt, qualifier = EvqConstExpr, isScalar = False\<rparr>"

definition vector_index :: TIntermNode where
  "vector_index = TIntermSymbol 1 8 ''i'' ivec2_type"

definition vector_init :: TIntermNode where
  "vector_init =
     TIntermAggregate 1 EOpDeclaration []
       [TIntermBinary 1 EOpInitialize vector_index (TIntermConstantUnion 1 const_ivec2_type)
          ivec2_type]
       ivec2_type"

definition vector_cond :: TIntermNode where
  "vector_cond =
     TIntermBinary 1 EOpNotEqual vector_index (TIntermConstantUnion 1 const_ivec2_type) bool_type"

definition vector_expr :: TIntermNode where
  "vector_expr = TIntermUnary 1 EOpPreIncrement vector_index ivec2_type"

definition vector_loop :: TIntermNode where
  "vector_loop =
     TIntermLoop 1 ELoopFor (Some vector_init) (Some vector_cond) (Some vector_expr) None"

subsection \<open>The loop header\<close>

lemma reportsError_error [simp]: "reportsError s (error l r t s)"
  by (simp add: reportsError_def error_def)

lemma reportsError_error2 [simp]: "reportsError s (error l r t (error l' r' t' s))"
  by (simp add: reportsError_def error_def)

lemma keepsErrors_refl [simp]: "keepsErrors s s"
  by (simp add: keepsErrors_def)

lemma keepsErrors_error [simp]: "keepsErrors s (error l r t s)"
  by (simp add: keepsErrors_def error_def)

lemma reportsError_keepsErrors: "reportsError s s' \<Longrightarrow> keepsErrors s' s'' \<Longrightarrow> reportsError s s''"
  by (auto simp: reportsError_def keepsErrors_def)

lemma getAsAggregate_Some:
  "getAsAggregate n = Some (l, op, name, seq) \<Longrightarrow> \<exists>t. n = TIntermAggregate l op name seq t"
  by (cases n) simp_all

lemma getAsBinaryNode_Some:
  "getAsBinaryNode n = Some (l, op, left, right) \<Longrightarrow> \<exists>t. n = TIntermBinary l op left right t"
  by (cases n) simp_all

lemma getAsUnaryNode_Some:
  "getAsUnaryNode n = Some (l, op, operand) \<Longrightarrow> \<exists>t. n = TIntermUnary l op operand t"
  by (cases n) simp_all

lemma getAsSymbolNode_Some:
  "getAsSymbolNode n = Some (l, i, name, t) \<Longrightarrow> n = TIntermSymbol l i name t"
  by (cases n) simp_all

lemma isConstExpr_iff: "isConstExpr n = (\<exists>l t. n = TIntermConstantUnion l t)"
  by (cases n) (simp_all add: isConstExpr_def)

lemma length_1_nth: "length xs = Suc 0 \<Longrightarrow> xs = [xs ! 0]"
  by (cases xs) simp_all

lemma validateForLoopInit_accepts:
  "declaresIndexOfBasicType init idx
    \<Longrightarrow> validateForLoopInit line init info s = (True, info\<lparr>index_id := idx\<rparr>, s)"
  unfolding declaresIndexOfBasicType_def validateForLoopInit_def
  by (auto simp: IsInteger_def isConstExpr_iff)

lemma validateForLoopInit_result:
  "(\<exists>idx. declaresIndexOfBasicType init idx \<and>
          validateForLoopInit line init info s = (True, info\<lparr>index_id := idx\<rparr>, s))
   \<or> ((\<forall>idx. \<not> declaresIndexOfBasicType init idx) \<and>
       (\<exists>s'. validateForLoopInit line init info s = (False, info, s') \<and> reportsError s s'))"
proof (cases "fst (validateForLoopInit line init info s)")
  case True
  then obtain n dl dop dn seq il iop left right sl i name t where
    "init = Some n" "getAsAggregate n = Some (dl, dop, dn, seq)" "dop = EOpDeclaration"
    "length seq = 1" "getAsBinaryNode (seq ! 0) = Some (il, iop, left, right)"
    "iop = EOpInitialize" "getAsSymbolNode left = Some (sl, i, name, t)"
    "IsInteger (basicType t) \<or> basicType t = EbtFloat" "isConstExpr right"
    unfolding validateForLoopInit_def
    by (auto split: option.splits if_splits prod.splits)
  then have "declaresIndexOfBasicType init i"
    unfolding declaresIndexOfBasicType_def
    using getAsAggregate_Some [of n dl dop dn seq] getAsBinaryNode_Some [of "seq ! 0" il iop left right]
      getAsSymbolNode_Some [of left sl i name t] length_1_nth [of seq]
    by (auto simp: IsInteger_def isConstExpr_iff)
  then show ?thesis using validateForLoopInit_accepts by blast
next
  case False
  then have r: "\<exists>s'. validateForLoopInit line init info s = (False, info, s') \<and> reportsError s s'"
    unfolding validateForLoopInit_def
    by (auto split: option.splits if_splits prod.splits)
  have "\<not> declaresIndexOfBasicType init idx" for idx
    using validateForLoopInit_accepts [of init idx line info s] False by auto
  then show ?thesis using r by blast
qed

lemma declaresIndexOfBasicType_unique: "declaresIndexOfBasicType init i \<Longrightarrow> declaresIndexOfBasicType init j \<Longrightarrow> i = j"
  unfolding declaresIndexOfBasicType_def by auto

lemma isRelationalOperator_iff:
  "isRelationalOperator op =
     (op \<in> {EOpLessThan, EOpLessThanEqual, EOpGreaterThan, EOpGreaterThanEqual,
              EOpEqual, EOpNotEqual})"
  by (cases op) (simp_all add: isRelationalOperator_def)

lemma isLoopStepOperator_iff:
  "isLoopStepOperator op =
     (op \<in> {EOpPreIncrement, EOpPreDecrement, EOpPostIncrement, EOpPostDecrement,
              EOpAddAssign, EOpSubAssign})"
  by (cases op) (simp_all add: isLoopStepOperator_def)

lemma validateForLoopCond_accepts:
  "conditionForm (index_id info) cond \<Longrightarrow> validateForLoopCond line cond info s = (True, s)"
  unfolding conditionForm_def validateForLoopCond_def
  by (auto simp: isConstExpr_iff isRelationalOperator_iff)

lemma validateForLoopCond_rejects:
  assumes "\<not> conditionForm (index_id info) cond"
  shows "reportsError s (snd (validateForLoopCond line cond info s))"
proof (rule ccontr)
  assume n: "\<not> reportsError s (snd (validateForLoopCond line cond info s))"
  then obtain c l op left right sl i name t where
    "cond = Some c" "getAsBinaryNode c = Some (l, op, left, right)"
    "getAsSymbolNode left = Some (sl, i, name, t)" "i = index_id info"
    "isRelationalOperator op" "isConstExpr right"
    unfolding validateForLoopCond_def
    by (auto simp: Let_def split: option.splits if_splits prod.splits)
  then have "conditionForm (index_id info) cond"
    unfolding conditionForm_def
    using getAsBinaryNode_Some [of c l op left right] getAsSymbolNode_Some [of left sl i name t]
    by (auto simp: isConstExpr_iff isRelationalOperator_iff)
  with assms show False by simp
qed

lemma validateForLoopExpr_accepts:
  "stepForm (index_id info) expr \<Longrightarrow> validateForLoopExpr line expr info s = (True, s)"
  unfolding stepForm_def validateForLoopExpr_def
  by (auto simp: isConstExpr_iff isLoopStepOperator_iff)

lemma validateForLoopExpr_rejects:
  assumes "\<not> stepForm (index_id info) expr" and "validateForLoopExpr_asserts expr"
  shows "reportsError s (snd (validateForLoopExpr line expr info s))"
proof (rule ccontr)
  assume n: "\<not> reportsError s (snd (validateForLoopExpr line expr info s))"
  then obtain e where e: "expr = Some e"
    unfolding validateForLoopExpr_def by (auto split: option.splits)
  show False
  proof (cases "getAsUnaryNode e")
    case (Some u)
    then obtain l op operand where u: "getAsUnaryNode e = Some (l, op, operand)"
      by (cases u) auto
    with n e obtain sl i name t where
      "getAsSymbolNode operand = Some (sl, i, name, t)" "i = index_id info"
      "isLoopStepOperator op"
      unfolding validateForLoopExpr_def
      by (auto simp: Let_def split: option.splits if_splits prod.splits)
    then have "stepForm (index_id info) expr"
      unfolding stepForm_def
      using getAsUnaryNode_Some [OF u] getAsSymbolNode_Some [of operand sl i name t]
        assms(2) e u
      by (auto simp: isLoopStepOperator_iff validateForLoopExpr_asserts_def)
    with assms show False by simp
  next
    case None
    with n e obtain l op left right sl i name t where
      b: "getAsBinaryNode e = Some (l, op, left, right)"
      and "getAsSymbolNode left = Some (sl, i, name, t)" "i = index_id info"
      "isLoopStepOperator op" "isConstExpr right"
      unfolding validateForLoopExpr_def
      by (auto simp: Let_def split: option.splits if_splits prod.splits)
    then have "stepForm (index_id info) expr"
      unfolding stepForm_def
      using getAsBinaryNode_Some [OF b] getAsSymbolNode_Some [of left sl i name t]
        assms(2) e None
      by (auto simp: isLoopStepOperator_iff isConstExpr_iff validateForLoopExpr_asserts_def)
    with assms show False by simp
  qed
qed

lemma validateForLoopCond_keeps: "keepsErrors s (snd (validateForLoopCond line cond info s))"
  unfolding validateForLoopCond_def
  by (auto simp: Let_def keepsErrors_def error_def split: option.splits if_splits prod.splits)

lemma validateForLoopExpr_keeps: "keepsErrors s (snd (validateForLoopExpr line expr info s))"
  unfolding validateForLoopExpr_def
  by (auto simp: Let_def keepsErrors_def error_def split: option.splits if_splits prod.splits)

lemma validateForLoopHeader_accepts:
  assumes "declaresIndexOfBasicType init idx" "conditionForm idx cond" "stepForm idx expr"
  shows "validateForLoopHeader line init cond expr info s = (True, info\<lparr>index_id := idx\<rparr>, s)"
  using validateForLoopInit_accepts [OF assms(1), of line info s]
    validateForLoopCond_accepts [of "info\<lparr>index_id := idx\<rparr>" cond line s]
    validateForLoopExpr_accepts [of "info\<lparr>index_id := idx\<rparr>" expr line s] assms
  by (simp add: validateForLoopHeader_def)

lemma validateForLoopHeader_rejects:
  assumes "\<forall>idx. \<not> (declaresIndexOfBasicType init idx \<and> conditionForm idx cond \<and> stepForm idx expr)"
    and "validateForLoopExpr_asserts expr"
  shows "reportsError s (snd (snd (validateForLoopHeader line init cond expr info s)))"
proof -
  from validateForLoopInit_result [of init line info s]
  consider (bad) s' where "\<forall>idx. \<not> declaresIndexOfBasicType init idx"
      "validateForLoopInit line init info s = (False, info, s')" "reportsError s s'"
    | (good) idx where "declaresIndexOfBasicType init idx"
      "validateForLoopInit line init info s = (True, info\<lparr>index_id := idx\<rparr>, s)"
    by blast
  then show ?thesis
  proof cases
    case bad
    then show ?thesis by (simp add: validateForLoopHeader_def)
  next
    case good
    let ?info = "info\<lparr>index_id := idx\<rparr>"
    obtain ok2 s2 where c: "validateForLoopCond line cond ?info s = (ok2, s2)"
      by (cases "validateForLoopCond line cond ?info s")
    obtain ok3 s3 where e: "validateForLoopExpr line expr ?info s2 = (ok3, s3)"
      by (cases "validateForLoopExpr line expr ?info s2")
    have k2: "keepsErrors s s2"
      using validateForLoopCond_keeps [of s line cond ?info] c by simp
    have k3: "keepsErrors s2 s3"
      using validateForLoopExpr_keeps [of s2 line expr ?info] e by simp
    show ?thesis
    proof (cases "conditionForm idx cond")
      case False
      then have "reportsError s s2"
        using validateForLoopCond_rejects [of ?info cond s line] c by simp
      then have "reportsError s s2 \<and> reportsError s s3"
        using reportsError_keepsErrors [OF _ k3] by blast
      then show ?thesis
        using good c e by (simp add: validateForLoopHeader_def)
    next
      case True
      then have "\<not> stepForm idx expr"
        using assms(1) good(1) by blast
      then have "reportsError s2 s3"
        using validateForLoopExpr_rejects [of ?info expr s2 line] assms(2) e by simp
      moreover have "s2 = s" "ok2"
        using validateForLoopCond_accepts [of ?info cond line s] True c by simp_all
      ultimately show ?thesis
        using good c e
        by (auto simp: validateForLoopHeader_def reportsError_def)
    qed
  qed
qed

lemma reportsError_validateLoopType:
  "type \<noteq> ELoopFor \<Longrightarrow> reportsError s (snd (validateLoopType line type s))"
  by (simp add: validateLoopType_def)

text \<open>
  What the header checks accept. A loop node is visited from any validator; the tree
  satisfies the assertions of \<open>validateForLoopExpr\<close>, and the traversal of the body does
  not take errors back. If the loop is a \<^verbatim>\<open>for\<close> loop whose init declares exactly one
  index of basic type int, uint or float initialized with a constant, whose condition
  compares that index, on the left, with a constant by one of the six relational operators,
  and whose expression is an increment or decrement of the index or adds a constant to it or
  subtracts one from it, then the header reports nothing: the validator is changed by the
  traversal of the body only, with the loop on the stack. In every other case the number of
  errors and the sink grow; a \<^verbatim>\<open>while\<close> or \<^verbatim>\<open>do\<close> loop gets the report that this
  type of loop is not allowed. Of the type of the index only the basic type counts.
\<close>

theorem visitLoop_accepts_canonical_for_loops:
  assumes "validateForLoopExpr_asserts expr"
    and "\<forall>b t. keepsErrors t (traverse b t)"
  shows
    "(acceptedFor type init cond expr \<longrightarrow>
        (\<exists>idx. declaresIndexOfBasicType init idx
           \<and> visitLoop traverse (TIntermLoop line type init cond expr body) s =
               (False,
                case body of
                  None \<Rightarrow> s
                | Some b \<Rightarrow>
                    (let s3 = traverse b
                                (s\<lparr>mLoopStack := mLoopStack s
                                     @ [\<lparr>index_id = idx,
                                         loop = TIntermLoop line type init cond expr body\<rparr>]\<rparr>)
                     in s3\<lparr>mLoopStack := butlast (mLoopStack s3)\<rparr>))))
     \<and> (\<not> acceptedFor type init cond expr \<longrightarrow>
          reportsError s (snd (visitLoop traverse (TIntermLoop line type init cond expr body) s)))
     \<and> (type \<noteq> ELoopFor \<longrightarrow>
          visitLoop traverse (TIntermLoop line type init cond expr body) s =
            (False, error line ''This type of loop is not allowed''
                      (Text (if type = ELoopWhile then ''while'' else ''do'')) s))"
proof (intro conjI impI)
  assume "acceptedFor type init cond expr"
  then obtain idx where f: "type = ELoopFor" "declaresIndexOfBasicType init idx" "conditionForm idx cond"
      "stepForm idx expr"
    by (auto simp: acceptedFor_def)
  show "\<exists>idx. declaresIndexOfBasicType init idx
           \<and> visitLoop traverse (TIntermLoop line type init cond expr body) s =
               (False,
                case body of
                  None \<Rightarrow> s
                | Some b \<Rightarrow>
                    (let s3 = traverse b
                                (s\<lparr>mLoopStack := mLoopStack s
                                     @ [\<lparr>index_id = idx,
                                         loop = TIntermLoop line type init cond expr body\<rparr>]\<rparr>)
                     in s3\<lparr>mLoopStack := butlast (mLoopStack s3)\<rparr>))"
    using f validateForLoopHeader_accepts [OF f(2-4)]
    by (intro exI [of _ idx]) (simp add: validateLoopType_def Let_def split: option.splits)
next
  assume n: "\<not> acceptedFor type init cond expr"
  show "reportsError s (snd (visitLoop traverse (TIntermLoop line type init cond expr body) s))"
  proof (cases "type = ELoopFor")
    case False
    then show ?thesis by (simp add: validateLoopType_def)
  next
    case True
    let ?info = "\<lparr>index_id = 0, loop = TIntermLoop line type init cond expr body\<rparr>"
    from n True have "\<forall>idx. \<not> (declaresIndexOfBasicType init idx \<and> conditionForm idx cond \<and> stepForm idx expr)"
      by (simp add: acceptedFor_def)
    then have r: "reportsError s (snd (snd (validateForLoopHeader line init cond expr ?info s)))"
      using validateForLoopHeader_rejects assms(1) by blast
    obtain ok info2 s2 where h: "validateForLoopHeader line init cond expr ?info s = (ok, info2, s2)"
      by (cases "validateForLoopHeader line init cond expr ?info s")
    with r have r2: "reportsError s s2" by simp
    show ?thesis
    proof (cases body)
      case None
      then show ?thesis using True h r2 by (simp add: validateLoopType_def)
    next
      case (Some b)
      let ?t = "traverse b (s2\<lparr>mLoopStack := mLoopStack s2 @ [info2]\<rparr>)"
      have "keepsErrors (s2\<lparr>mLoopStack := mLoopStack s2 @ [info2]\<rparr>) ?t"
        using assms(2) by blast
      then have "reportsError s (?t\<lparr>mLoopStack := butlast (mLoopStack ?t)\<rparr>)"
        using r2 by (auto simp: reportsError_def keepsErrors_def)
      then show ?thesis
        using True h r2 Some by (simp add: validateLoopType_def Let_def)
    qed
  qed
next
  assume "type \<noteq> ELoopFor"
  then show "visitLoop traverse (TIntermLoop line type init cond expr body) s =
            (False, error line ''This type of loop is not allowed''
                      (Text (if type = ELoopWhile then ''while'' else ''do'')) s)"
    by (simp add: validateLoopType_def)
qed

text \<open>
  The loop \<^verbatim>\<open>for(int i = 0; i < 4; ++i)\<close> without a body is accepted; with the
  expression \<^verbatim>\<open>++i\<close> in place of its condition it is reported; a \<^verbatim>\<open>while\<close> loop is
  reported.
\<close>

theorem visitLoop_accepts_canonical_for_loops_witness:
  "visitLoop (\<lambda>b t. t)
     (TIntermLoop 1 ELoopFor (Some canonical_init) (Some canonical_cond) (Some canonical_expr) None)
     (validator0 GL_FRAGMENT_SHADER) = (False, validator0 GL_FRAGMENT_SHADER)
   \<and> reportsError (validator0 GL_FRAGMENT_SHADER)
       (snd (visitLoop (\<lambda>b t. t)
          (TIntermLoop 1 ELoopFor (Some canonical_init) (Some canonical_expr) (Some canonical_expr)
             None)
          (validator0 GL_FRAGMENT_SHADER)))
   \<and> visitLoop (\<lambda>b t. t)
       (TIntermLoop 1 ELoopWhile None (Some canonical_cond) None None)
       (validator0 GL_FRAGMENT_SHADER) =
       (False, error 1 ''This type of loop is not allowed'' (Text ''while'')
                 (validator0 GL_FRAGMENT_SHADER))"
proof -
  have a: "validateForLoopExpr_asserts (Some canonical_expr)"
    by (simp add: validateForLoopExpr_asserts_def canonical_expr_def)
  have a0: "validateForLoopExpr_asserts None"
    by (simp add: validateForLoopExpr_asserts_def)
  have k: "\<forall>b t. keepsErrors t ((\<lambda>b t. t) b t)"
    by simp
  have d: "declaresIndexOfBasicType (Some canonical_init) idx = (idx = 7)" for idx
    by (auto simp: declaresIndexOfBasicType_def canonical_init_def loop_index_def int_type_def)
  have c: "conditionForm 7 (Some canonical_cond)"
    by (simp add: conditionForm_def canonical_cond_def loop_index_def)
  have e: "stepForm 7 (Some canonical_expr)"
    by (simp add: stepForm_def canonical_expr_def loop_index_def)
  have nc: "\<not> conditionForm 7 (Some canonical_expr)"
    by (simp add: conditionForm_def canonical_expr_def)
  have acc: "acceptedFor ELoopFor (Some canonical_init) (Some canonical_cond) (Some canonical_expr)"
    using d c e by (simp add: acceptedFor_def)
  have rej: "\<not> acceptedFor ELoopFor (Some canonical_init) (Some canonical_expr) (Some canonical_expr)"
    using d nc by (simp add: acceptedFor_def)
  show ?thesis
    using visitLoop_accepts_canonical_for_loops [OF a k,
        where type = ELoopFor and init = "Some canonical_init" and cond = "Some canonical_cond"
          and line = 1 and body = None and s = "validator0 GL_FRAGMENT_SHADER"]
      visitLoop_accepts_canonical_for_loops [OF a k,
        where type = ELoopFor and init = "Some canonical_init" and cond = "Some canonical_expr"
          and line = 1 and body = None and s = "validator0 GL_FRAGMENT_SHADER"]
      visitLoop_accepts_canonical_for_loops [OF a0 k,
        where type = ELoopWhile and init = None and cond = "Some canonical_cond"
          and line = 1 and body = None and s = "validator0 GL_FRAGMENT_SHADER"]
      acc rej
    by simp
qed

subsection \<open>A loop index that is a vector\<close>

text \<open>
  Claim C1, at a concrete input. The loop \<^verbatim>\<open>for(ivec2 i = ivec2(0); i != ivec2(4); ++i)\<close>
  deviates from the form of the claim: its index is not of type int, uint or float but a
  vector of two ints (its type is not a scalar). The validator reports nothing on it:
  \<open>visitLoop\<close> returns with the validator unchanged, because \<open>validateForLoopInit\<close>
  tests the basic type of the index only. An index expression of the same type is refused
  by \<open>validateIndexing\<close>, which tests \<open>isScalarInt\<close>; and the same loop with an index
  of basic type bool is reported.
\<close>

theorem visitLoop_accepts_vector_index:
  "getAsTyped vector_index = Some ivec2_type
   \<and> \<not> isScalar ivec2_type
   \<and> visitLoop (\<lambda>b t. t) vector_loop (validator0 GL_FRAGMENT_SHADER)
       = (False, validator0 GL_FRAGMENT_SHADER)
   \<and> mSink (snd (validateIndexing uniform_array vector_index (validator0 GL_FRAGMENT_SHADER)))
       = [(1, ''Index expression must have integral type'', CompleteString vector_index),
          (1, ''Index expression must be constant'', Text ''[]'')]
   \<and> mSink (snd (visitLoop (\<lambda>b t. t)
        (TIntermLoop 1 ELoopFor
           (Some (TIntermAggregate 1 EOpDeclaration []
              [TIntermBinary 1 EOpInitialize (TIntermSymbol 1 8 ''i'' bool_type)
                 (TIntermConstantUnion 1 bool_type) bool_type] bool_type))
           (Some vector_cond) (Some vector_expr) None)
        (validator0 GL_FRAGMENT_SHADER)))
       = [(1, ''Invalid type for loop index'', Text ''bool'')]"
  by (simp add: vector_loop_def vector_init_def vector_cond_def vector_expr_def
        vector_index_def ivec2_type_def const_ivec2_type_def bool_type_def validator0_def
        uniform_array_def validateLoopType_def validateForLoopHeader_def
        validateForLoopInit_def validateForLoopCond_def validateForLoopExpr_def
        validateIndexing_def isScalarInt_def getQualifier_def isConstIndexExpr_def
        ValidateConstIndexExpr_visitSymbol_def IsLoopIndex_def
        IsInteger_def isConstExpr_def isRelationalOperator_def isLoopStepOperator_def
        getBasicString_def error_def GL_FRAGMENT_SHADER_def GL_VERTEX_SHADER_def)

subsection \<open>Constant index expressions\<close>






end
